theory Spec2Isabelle
  imports Complex_Main
begin

section \<open>Numbers and vectors\<close>

text \<open>
  JavaScript Numbers are modelled as exact reals; the value \<open>Infinity\<close>, which the
  pathfinder stores in its cost fields, is the extra element of the type \<open>cost\<close>.
\<close>

record Vector3 =
  vx :: real
  vy :: real
  vz :: real

section \<open>NavigationGrid\<close>

record cell =
  maxObstacleHeight :: real
  isObstacle :: bool
  worldX :: real
  worldZ :: real

text \<open>
  The array of arrays \<open>grid[i][j]\<close> is a function of the two indices. The constructor
  fills the indices \<open>0 \<le> i < gridCellsX\<close>, \<open>0 \<le> j < gridCellsZ\<close>; every access of the
  source is guarded by that range.
\<close>

record NavigationGrid =
  worldWidth :: real
  worldDepth :: real
  cellSize :: real
  groundLevel :: real
  gridCellsX :: int
  gridCellsZ :: int
  grid :: "int \<Rightarrow> int \<Rightarrow> cell"

definition newCell :: "real \<Rightarrow> real \<Rightarrow> real \<Rightarrow> real \<Rightarrow> int \<Rightarrow> int \<Rightarrow> cell" where
  "newCell w d cs gl i j =
     \<lparr> maxObstacleHeight = gl, isObstacle = False,
       worldX = (of_int i + 0.5) * cs - w / 2,
       worldZ = (of_int j + 0.5) * cs - d / 2 \<rparr>"

text \<open>
  The constructor. The cell counts are \<open>Math.floor\<close> of the quotients
  \<open>worldWidth / cellSize\<close> and \<open>worldDepth / cellSize\<close> as the double division
  returns them. That division rounds, and the rounding can cross an integer: in doubles
  \<open>1.2 / 0.4\<close> is \<open>2.9999999999999996\<close>, so the code builds 2 cells where the exact
  quotient is 3. The two quotients are therefore arguments of the model, \<open>qx\<close> and
  \<open>qz\<close>; what is proved of a constructed grid is proved for all their values.
\<close>

definition newNavigationGrid ::
  "real \<Rightarrow> real \<Rightarrow> real \<Rightarrow> real \<Rightarrow> real \<Rightarrow> real \<Rightarrow> NavigationGrid" where
  "newNavigationGrid w d cs gl qx qz =
     \<lparr> worldWidth = w, worldDepth = d, cellSize = cs, groundLevel = gl,
       gridCellsX = \<lfloor>qx\<rfloor>, gridCellsZ = \<lfloor>qz\<rfloor>,
       grid = newCell w d cs gl \<rparr>"

definition worldToGridCoordinates :: "NavigationGrid \<Rightarrow> real \<Rightarrow> real \<Rightarrow> (int \<times> int) option" where
  "worldToGridCoordinates g wx wz =
     (let gridX = \<lfloor>(wx + worldWidth g / 2) / cellSize g\<rfloor>;
          gridZ = \<lfloor>(wz + worldDepth g / 2) / cellSize g\<rfloor>
      in if gridX \<ge> 0 \<and> gridX < gridCellsX g \<and> gridZ \<ge> 0 \<and> gridZ < gridCellsZ g
         then Some (gridX, gridZ) else None)"

definition gridToWorldCoordinates :: "NavigationGrid \<Rightarrow> int \<Rightarrow> int \<Rightarrow> (real \<times> real) option" where
  "gridToWorldCoordinates g gridX gridZ =
     (if gridX \<ge> 0 \<and> gridX < gridCellsX g \<and> gridZ \<ge> 0 \<and> gridZ < gridCellsZ g
      then Some (worldX (grid g gridX gridZ), worldZ (grid g gridX gridZ)) else None)"

text \<open>The bounding box that \<open>THREE.Box3().setFromObject\<close> gives for an obstacle.\<close>

record Box3 =
  minX :: real
  maxX :: real
  minZ :: real
  maxZ :: real
  maxY :: real

definition resetCell :: "NavigationGrid \<Rightarrow> cell \<Rightarrow> cell" where
  "resetCell g c = c\<lparr> isObstacle := False, maxObstacleHeight := groundLevel g \<rparr>"

definition resetObstacles :: "NavigationGrid \<Rightarrow> NavigationGrid" where
  "resetObstacles g =
     g\<lparr> grid := (\<lambda>i j. if 0 \<le> i \<and> i < gridCellsX g \<and> 0 \<le> j \<and> j < gridCellsZ g
                         then resetCell g (grid g i j) else grid g i j) \<rparr>"

definition markCell :: "real \<Rightarrow> int \<Rightarrow> int \<Rightarrow> NavigationGrid \<Rightarrow> NavigationGrid" where
  "markCell topY i j g =
     (if j < 0 \<or> j \<ge> gridCellsZ g then g
      else g\<lparr> grid := (\<lambda>a b. if a = i \<and> b = j
                 then (grid g i j)\<lparr> isObstacle := True,
                        maxObstacleHeight := max (maxObstacleHeight (grid g i j)) topY \<rparr>
                 else grid g a b) \<rparr>)"

definition markColumn :: "real \<Rightarrow> int \<Rightarrow> int \<Rightarrow> int \<Rightarrow> NavigationGrid \<Rightarrow> NavigationGrid" where
  "markColumn topY z0 z1 i g =
     (if i < 0 \<or> i \<ge> gridCellsX g then g else fold (markCell topY i) [z0..z1] g)"

definition markObject :: "Box3 \<Rightarrow> NavigationGrid \<Rightarrow> NavigationGrid" where
  "markObject b g =
     (case (worldToGridCoordinates g (minX b) (minZ b),
            worldToGridCoordinates g (maxX b) (maxZ b)) of
        (Some (x0, z0), Some (x1, z1)) \<Rightarrow> fold (markColumn (maxY b) z0 z1) [x0..x1] g
      | _ \<Rightarrow> g)"

definition populateFromObjects :: "Box3 list \<Rightarrow> NavigationGrid \<Rightarrow> NavigationGrid" where
  "populateFromObjects objs g = fold markObject objs (resetObstacles g)"

definition directions :: "(int \<times> int) list" where
  "directions = [(-1, 0), (1, 0), (0, -1), (0, 1), (-1, -1), (-1, 1), (1, -1), (1, 1)]"

definition getNeighbors :: "NavigationGrid \<Rightarrow> int \<Rightarrow> int \<Rightarrow> (int \<times> int) list" where
  "getNeighbors g gridX gridZ =
     filter (\<lambda>(nextX, nextZ). nextX \<ge> 0 \<and> nextX < gridCellsX g \<and>
                nextZ \<ge> 0 \<and> nextZ < gridCellsZ g \<and> \<not> isObstacle (grid g nextX nextZ))
       (map (\<lambda>(dx, dz). (gridX + dx, gridZ + dz)) directions)"

section \<open>Pathfinder\<close>

text \<open>
  A function that calls the search returns an \<open>option\<close>: \<open>None\<close> stands for a call
  that does not return normally (a loop that never ends, or the \<open>TypeError\<close> of reading
  a field of \<open>null\<close>). Inside it, JavaScript's \<open>null\<close> result is again \<open>None\<close>, so
  \<open>Some None\<close> is a call that returns \<open>null\<close> and \<open>Some (Some p)\<close> one that returns \<open>p\<close>.
\<close>

datatype cost = Fin real | Infinity

fun costAdd :: "cost \<Rightarrow> real \<Rightarrow> cost" where
  "costAdd (Fin a) r = Fin (a + r)"
| "costAdd Infinity r = Infinity"

fun costPlus :: "cost \<Rightarrow> cost \<Rightarrow> cost" where
  "costPlus (Fin a) (Fin b) = Fin (a + b)"
| "costPlus _ _ = Infinity"

fun costLess :: "cost \<Rightarrow> cost \<Rightarrow> bool" where
  "costLess (Fin a) (Fin b) = (a < b)"
| "costLess (Fin a) Infinity = True"
| "costLess Infinity _ = False"

text \<open>The fields that \<open>findPath\<close> keeps on every cell, reset at the start of each call.\<close>

record node =
  gCost :: cost
  hCost :: cost
  fCost :: cost
  parent :: "(int \<times> int) option"
  flyY :: real

definition resetNode :: node where
  "resetNode = \<lparr> gCost = Infinity, hCost = Infinity, fCost = Infinity, parent = None, flyY = 0 \<rparr>"

record search =
  nodes :: "int \<times> int \<Rightarrow> node"
  openSet :: "(int \<times> int) list"
  closedSet :: "(int \<times> int) list"

definition cellAt :: "NavigationGrid \<Rightarrow> int \<times> int \<Rightarrow> cell" where
  "cellAt g c = grid g (fst c) (snd c)"

definition heuristic :: "cell \<Rightarrow> real \<Rightarrow> real \<Rightarrow> real \<Rightarrow> real \<Rightarrow> real" where
  "heuristic cellA flyYA cellB_worldX cellB_worldZ flyYB =
     (let dx = cellB_worldX - worldX cellA;
          dz = cellB_worldZ - worldZ cellA;
          dy = flyYB - flyYA
      in sqrt (dx * dx + dz * dz + dy * dy))"

text \<open>
  \<open>openSet.sort((a, b) => a.fCost - b.fCost)\<close>: a stable sort by \<open>fCost\<close>; the
  comparator's \<open>NaN\<close> for two infinite costs counts as equal.
\<close>

fun insertByFCost :: "(int \<times> int \<Rightarrow> node) \<Rightarrow> int \<times> int \<Rightarrow> (int \<times> int) list \<Rightarrow> (int \<times> int) list" where
  "insertByFCost N a [] = [a]"
| "insertByFCost N a (b # bs) =
     (if costLess (fCost (N b)) (fCost (N a)) then b # insertByFCost N a bs else a # b # bs)"

definition sortByFCost :: "(int \<times> int \<Rightarrow> node) \<Rightarrow> (int \<times> int) list \<Rightarrow> (int \<times> int) list" where
  "sortByFCost N xs = foldr (insertByFCost N) xs []"

text \<open>
  One pass of the loop over the neighbours of \<open>currentNode\<close>. The cell object
  \<open>currentNode\<close> is the index pair \<open>cur\<close> under which the grid holds it;
  \<open>currentGridCoords\<close> is what \<open>worldToGridCoordinates\<close> gives for its centre.
\<close>

definition visitNeighbor ::
  "NavigationGrid \<Rightarrow> Vector3 \<Rightarrow> int \<times> int \<Rightarrow> real \<Rightarrow> real \<Rightarrow> real \<Rightarrow>
   int \<times> int \<Rightarrow> int \<times> int \<Rightarrow> int \<times> int \<Rightarrow> search \<Rightarrow> search" where
  "visitNeighbor g endWorldPos endC endCellFlyY droneSafetyMargin altitudeChangePenalty
       cur currentGridCoords neighborCoord s =
     (if neighborCoord \<in> set (closedSet s) then s
      else
        let N1 = (nodes s)(neighborCoord := (nodes s neighborCoord)
                    \<lparr> flyY := max (vy endWorldPos)
                        (maxObstacleHeight (cellAt g neighborCoord) + droneSafetyMargin) \<rparr>);
            dxNeighbor = \<bar>fst neighborCoord - fst currentGridCoords\<bar>;
            dzNeighbor = \<bar>snd neighborCoord - snd currentGridCoords\<bar>;
            isDiagonalMove = (dxNeighbor = 1 \<and> dzNeighbor = 1);
            costToMove = (if isDiagonalMove then cellSize g * sqrt 2 else cellSize g);
            altitudeChange = \<bar>flyY (N1 neighborCoord) - flyY (N1 cur)\<bar>;
            tentativeGCost = costAdd (costAdd (gCost (N1 cur)) costToMove)
                               (altitudeChange * altitudeChangePenalty);
            h = heuristic (cellAt g neighborCoord) (flyY (N1 neighborCoord))
                  (worldX (cellAt g endC)) (worldZ (cellAt g endC)) endCellFlyY
        in if costLess tentativeGCost (gCost (N1 neighborCoord)) then
             s\<lparr> nodes := N1(neighborCoord := (N1 neighborCoord)
                    \<lparr> parent := Some cur, gCost := tentativeGCost, hCost := Fin h,
                      fCost := costPlus tentativeGCost (Fin h) \<rparr>),
                openSet := (if neighborCoord \<in> set (openSet s) then openSet s
                            else openSet s @ [neighborCoord]) \<rparr>
           else if neighborCoord \<notin> set (openSet s) then
             s\<lparr> nodes := N1(neighborCoord := (N1 neighborCoord)
                    \<lparr> hCost := Fin h,
                      fCost := costPlus (gCost (N1 neighborCoord)) (Fin h) \<rparr>),
                openSet := (if gCost (N1 neighborCoord) = Infinity
                            then openSet s @ [neighborCoord] else openSet s) \<rparr>
           else s\<lparr> nodes := N1 \<rparr>)"

text \<open>\<open>reconstructPath\<close>: the walk along the \<open>parent\<close> links, each point put in front.\<close>

partial_function (option) reconstructLoop ::
  "NavigationGrid \<Rightarrow> (int \<times> int \<Rightarrow> node) \<Rightarrow> real \<Rightarrow> real \<Rightarrow> (int \<times> int) option \<Rightarrow>
   Vector3 list \<Rightarrow> Vector3 list option" where
  "reconstructLoop g N droneSafetyMargin targetWaypointY currentNode path =
     (case currentNode of
        None \<Rightarrow> Some path
      | Some c \<Rightarrow>
          reconstructLoop g N droneSafetyMargin targetWaypointY (parent (N c))
            (\<lparr> vx = worldX (cellAt g c),
               vy = max targetWaypointY (maxObstacleHeight (cellAt g c) + droneSafetyMargin),
               vz = worldZ (cellAt g c) \<rparr> # path))"

definition reconstructPath ::
  "int \<times> int \<Rightarrow> NavigationGrid \<Rightarrow> (int \<times> int \<Rightarrow> node) \<Rightarrow> real \<Rightarrow> real \<Rightarrow> Vector3 list option" where
  "reconstructPath endNode g N droneSafetyMargin targetWaypointY =
     reconstructLoop g N droneSafetyMargin targetWaypointY (Some endNode) []"

text \<open>The \<open>while (openSet.length > 0)\<close> loop of \<open>findPath\<close>.\<close>

partial_function (option) searchLoop ::
  "NavigationGrid \<Rightarrow> Vector3 \<Rightarrow> int \<times> int \<Rightarrow> real \<Rightarrow> real \<Rightarrow> real \<Rightarrow> search \<Rightarrow>
   Vector3 list option option" where
  "searchLoop g endWorldPos endC endCellFlyY droneSafetyMargin altitudeChangePenalty s =
     (case sortByFCost (nodes s) (openSet s) of
        [] \<Rightarrow> Some None
      | cur # rest \<Rightarrow>
          if cur = endC then
            (case reconstructPath cur g (nodes s) droneSafetyMargin (vy endWorldPos) of
               None \<Rightarrow> None
             | Some path \<Rightarrow> Some (Some path))
          else
            (case worldToGridCoordinates g (worldX (cellAt g cur)) (worldZ (cellAt g cur)) of
               None \<Rightarrow> None
             | Some currentGridCoords \<Rightarrow>
                 searchLoop g endWorldPos endC endCellFlyY droneSafetyMargin altitudeChangePenalty
                   (fold (visitNeighbor g endWorldPos endC endCellFlyY droneSafetyMargin
                            altitudeChangePenalty cur currentGridCoords)
                      (getNeighbors g (fst currentGridCoords) (snd currentGridCoords))
                      (s\<lparr> openSet := rest,
                         closedSet := closedSet s @ [currentGridCoords] \<rparr>))))"

definition findPath ::
  "NavigationGrid \<Rightarrow> Vector3 \<Rightarrow> Vector3 \<Rightarrow> real \<Rightarrow> real \<Rightarrow> Vector3 list option option" where
  "findPath g startWorldPos endWorldPos droneSafetyMargin altitudeChangePenalty =
     (case (worldToGridCoordinates g (vx startWorldPos) (vz startWorldPos),
            worldToGridCoordinates g (vx endWorldPos) (vz endWorldPos)) of
        (Some startC, Some endC) \<Rightarrow>
          if isObstacle (cellAt g startC) \<or> isObstacle (cellAt g endC) then Some None
          else
            let startFlyY = max (vy startWorldPos)
                              (maxObstacleHeight (cellAt g startC) + droneSafetyMargin);
                endCellFlyY = max (vy endWorldPos)
                                (maxObstacleHeight (cellAt g endC) + droneSafetyMargin);
                h = heuristic (cellAt g startC) startFlyY
                      (worldX (cellAt g endC)) (worldZ (cellAt g endC)) endCellFlyY;
                N = (\<lambda>c. resetNode)(startC := resetNode
                      \<lparr> gCost := Fin 0, flyY := startFlyY, hCost := Fin h,
                        fCost := costPlus (Fin 0) (Fin h) \<rparr>)
            in searchLoop g endWorldPos endC endCellFlyY droneSafetyMargin altitudeChangePenalty
                 \<lparr> nodes = N, openSet = [startC], closedSet = [] \<rparr>
      | _ \<Rightarrow> Some None)"

text \<open>The default arguments of \<open>findPath\<close>.\<close>

definition defaultSafetyMargin :: real where
  "defaultSafetyMargin = 1.0"

definition defaultAltitudePenalty :: real where
  "defaultAltitudePenalty = 1.5"

section \<open>WaypointNavigator\<close>

record WaypointNavigator =
  pathfinder :: "NavigationGrid \<Rightarrow> Vector3 \<Rightarrow> Vector3 \<Rightarrow> real \<Rightarrow> real \<Rightarrow> Vector3 list option option"
  navGrid :: NavigationGrid

text \<open>
  The loop over the waypoints; its state is the pair of \<open>fullPath\<close> and
  \<open>currentPosition\<close>. \<open>segmentPath.slice(1)\<close> is \<open>tl\<close>, also on an empty array.
\<close>

fun legsLoop ::
  "WaypointNavigator \<Rightarrow> real \<Rightarrow> real \<Rightarrow> Vector3 list \<times> Vector3 \<Rightarrow> Vector3 list \<Rightarrow>
   (Vector3 list \<times> Vector3) option option" where
  "legsLoop nav droneSafetyMargin altitudeChangePenalty (fullPath, currentPosition) [] =
     Some (Some (fullPath, currentPosition))"
| "legsLoop nav droneSafetyMargin altitudeChangePenalty (fullPath, currentPosition)
       (nextWaypoint # waypoints) =
     (case pathfinder nav (navGrid nav) currentPosition nextWaypoint
             droneSafetyMargin altitudeChangePenalty of
        None \<Rightarrow> None
      | Some None \<Rightarrow> Some None
      | Some (Some segmentPath) \<Rightarrow>
          legsLoop nav droneSafetyMargin altitudeChangePenalty
            (fullPath @ tl segmentPath,
             if length segmentPath > 0 then last segmentPath else nextWaypoint)
            waypoints)"

text \<open>A \<open>null\<close> waypoint array takes the branch of the empty one.\<close>

definition generatePathThroughWaypoints ::
  "WaypointNavigator \<Rightarrow> Vector3 \<Rightarrow> Vector3 list \<Rightarrow> real \<Rightarrow> real \<Rightarrow> Vector3 list option option" where
  "generatePathThroughWaypoints nav startPos waypoints droneSafetyMargin altitudeChangePenalty =
     (if length waypoints = 0 then Some (Some [startPos])
      else
        (case legsLoop nav droneSafetyMargin altitudeChangePenalty ([startPos], startPos) waypoints of
           None \<Rightarrow> None
         | Some None \<Rightarrow> Some None
         | Some (Some (fullPath, currentPosition)) \<Rightarrow> Some (Some fullPath)))"

text \<open>
  The legs of a route, in the words of the specification: each leg is what the
  pathfinder returns from the running position to the next waypoint, and the running
  position after a leg is the last point of that leg (the waypoint itself for a leg
  without points).
\<close>

fun legsOf ::
  "(Vector3 \<Rightarrow> Vector3 \<Rightarrow> Vector3 list option option) \<Rightarrow> Vector3 \<Rightarrow> Vector3 list \<Rightarrow>
   Vector3 list list \<Rightarrow> bool" where
  "legsOf F cur [] [] = True"
| "legsOf F cur (w # ws) (l # ls) =
     (F cur w = Some (Some l) \<and> legsOf F (if l = [] then w else last l) ws ls)"
| "legsOf F cur [] (l # ls) = False"
| "legsOf F cur (w # ws) [] = False"

section \<open>Example grids\<close>

text \<open>Two cells side by side, and the same grid with an obstacle over the first cell.\<close>

definition twoCells :: NavigationGrid where
  "twoCells = newNavigationGrid 2 1 1 0 2 1"

definition blockedCells :: NavigationGrid where
  "blockedCells = populateFromObjects
      [\<lparr>minX = -0.9, maxX = -0.6, minZ = -0.2, maxZ = 0.2, maxY = 3\<rparr>] twoCells"

text \<open>
  The grid of \<open>new NavigationGrid(1.2, 1.2, 0.4)\<close>, two cells by two as the double
  division gives it, with an obstacle over its first cell.
\<close>

definition smallGrid :: NavigationGrid where
  "smallGrid = populateFromObjects
      [\<lparr>minX = - (1 / 2), maxX = - (3 / 10), minZ = - (1 / 2), maxZ = - (3 / 10), maxY = 3\<rparr>]
      (newNavigationGrid (12 / 10) (12 / 10) (4 / 10) 0
         (29999999999999996 / 10000000000000000) (29999999999999996 / 10000000000000000))"

text \<open>
  The open grid of ten by ten cells of size 1 (ground level 0, no obstacle), and the
  centre of a cell as a path point at a given altitude.
\<close>

definition tenByTen :: NavigationGrid where
  "tenByTen = newNavigationGrid 10 10 1 0 10 10"

definition cellCentre :: "NavigationGrid \<Rightarrow> real \<Rightarrow> int \<times> int \<Rightarrow> Vector3" where
  "cellCentre g y c =
     \<lparr> vx = worldX (grid g (fst c) (snd c)), vy = y, vz = worldZ (grid g (fst c) (snd c)) \<rparr>"

section \<open>DronePhysics\<close>

text \<open>Functions of the JavaScript and THREE libraries that the drone code calls.\<close>

definition jsRemainder :: "real \<Rightarrow> real \<Rightarrow> real" where
  "jsRemainder a b =
     a - b * of_int (if a / b \<ge> 0 then \<lfloor>a / b\<rfloor> else \<lceil>a / b\<rceil>)"

definition atan2 :: "real \<Rightarrow> real \<Rightarrow> real" where
  "atan2 y x =
     (if x > 0 then arctan (y / x)
      else if x < 0 \<and> y \<ge> 0 then arctan (y / x) + pi
      else if x < 0 \<and> y < 0 then arctan (y / x) - pi
      else if y > 0 then pi / 2
      else if y < 0 then - (pi / 2)
      else 0)"

definition radToDeg :: "real \<Rightarrow> real" where
  "radToDeg r = r * (180 / pi)"

definition clamp :: "real \<Rightarrow> real \<Rightarrow> real \<Rightarrow> real" where
  "clamp v lo hi = max lo (min hi v)"

definition subVectors :: "Vector3 \<Rightarrow> Vector3 \<Rightarrow> Vector3" where
  "subVectors a b = \<lparr> vx = vx a - vx b, vy = vy a - vy b, vz = vz a - vz b \<rparr>"

definition vlength :: "Vector3 \<Rightarrow> real" where
  "vlength v = sqrt (vx v * vx v + vy v * vy v + vz v * vz v)"

definition distanceTo :: "Vector3 \<Rightarrow> Vector3 \<Rightarrow> real" where
  "distanceTo a b = vlength (subVectors a b)"

definition multiplyScalar :: "Vector3 \<Rightarrow> real \<Rightarrow> Vector3" where
  "multiplyScalar v k = \<lparr> vx = vx v * k, vy = vy v * k, vz = vz v * k \<rparr>"

definition setLength :: "Vector3 \<Rightarrow> real \<Rightarrow> Vector3" where
  "setLength v l =
     multiplyScalar (multiplyScalar v (1 / (if vlength v = 0 then 1 else vlength v))) l"

text \<open>The physics constants, set once by the constructor.\<close>

definition GRAVITY :: real where "GRAVITY = 9.8"
definition LIFT_POWER :: real where "LIFT_POWER = 6"
definition MAX_TILT :: real where "MAX_TILT = 30"
definition ROTATION_SPEED :: real where "ROTATION_SPEED = 1.0"
definition MOVEMENT_SPEED :: real where "MOVEMENT_SPEED = 25"
definition DRAG_FACTOR :: real where "DRAG_FACTOR = 0.95"
definition VERTICAL_DRAG_FACTOR :: real where "VERTICAL_DRAG_FACTOR = 0.97"
definition FORMATION_FOLLOW_SPEED :: real where "FORMATION_FOLLOW_SPEED = 10"
definition autonomousTargetReachedThreshold :: real where
  "autonomousTargetReachedThreshold = 1.5"

record Tilt =
  tiltX :: real
  tiltZ :: real

record DronePhysics =
  altitude :: real
  velocity :: Vector3
  rotation :: real
  tilt :: Tilt
  position :: Vector3
  inFormation :: bool
  crashed :: bool

record Keys =
  key_w :: bool
  key_a :: bool
  key_s :: bool
  key_d :: bool
  key_ArrowUp :: bool
  key_ArrowDown :: bool
  key_Space :: bool
  key_ShiftLeft :: bool
  key_ShiftRight :: bool
  key_q :: bool
  key_e :: bool
  key_r :: bool

definition noKeys :: Keys where
  "noKeys = \<lparr> key_w = False, key_a = False, key_s = False, key_d = False,
      key_ArrowUp = False, key_ArrowDown = False, key_Space = False,
      key_ShiftLeft = False, key_ShiftRight = False,
      key_q = False, key_e = False, key_r = False \<rparr>"

text \<open>What a tick reads from the outside: \<open>Date.now()\<close> and \<open>Math.random()\<close>.\<close>

record Env =
  dateNow :: real
  mathRandom :: real

definition newDronePhysics :: "Vector3 \<Rightarrow> DronePhysics" where
  "newDronePhysics initialPosition =
     \<lparr> altitude = vy initialPosition, velocity = \<lparr> vx = 0, vy = 0, vz = 0 \<rparr>,
       rotation = 0, tilt = \<lparr> tiltX = 0, tiltZ = 0 \<rparr>, position = initialPosition,
       inFormation = False, crashed = False \<rparr>"

definition calculateLift :: "Env \<Rightarrow> Keys \<Rightarrow> DronePhysics \<Rightarrow> real" where
  "calculateLift env keys ph =
     (if key_ArrowUp keys \<or> key_Space keys then 0 + LIFT_POWER * 4.5
      else if key_ArrowDown keys \<or> key_ShiftLeft keys \<or> key_ShiftRight keys
        then 0 - LIFT_POWER * 4.5
      else
        let lift = GRAVITY + sin (dateNow env / 500) * 3.0 + (mathRandom env - 0.5) * 3.0;
            distanceFromHover = altitude ph - vy (position ph)
        in if \<bar>distanceFromHover\<bar> > 2.0 then lift + distanceFromHover * 0.1 else lift)"

definition handleRotation :: "Keys \<Rightarrow> DronePhysics \<Rightarrow> DronePhysics" where
  "handleRotation keys ph =
     (let r1 = (if key_q keys then rotation ph + ROTATION_SPEED else rotation ph);
          r2 = (if key_e keys then r1 - ROTATION_SPEED else r1)
      in ph\<lparr> rotation := jsRemainder (r2 + 360) 360 \<rparr>)"

definition reset :: "DronePhysics \<Rightarrow> DronePhysics" where
  "reset ph = ph\<lparr> position := \<lparr> vx = 0, vy = 10, vz = 0 \<rparr>,
                  velocity := \<lparr> vx = 0, vy = 0, vz = 0 \<rparr>,
                  rotation := 0,
                  tilt := \<lparr> tiltX = 0, tiltZ = 0 \<rparr>,
                  crashed := False \<rparr>"

definition handleMovement :: "real \<Rightarrow> Keys \<Rightarrow> DronePhysics \<Rightarrow> DronePhysics" where
  "handleMovement delta keys ph =
     (let rotationRad = rotation ph * pi / 180;
          ph1 =
            (if key_w keys then
               ph\<lparr> tilt := (tilt ph)\<lparr> tiltX := min (tiltX (tilt ph) + 1) MAX_TILT \<rparr>,
                   velocity := (velocity ph)
                     \<lparr> vz := vz (velocity ph) + cos rotationRad * MOVEMENT_SPEED * delta,
                       vx := vx (velocity ph) + sin rotationRad * MOVEMENT_SPEED * delta \<rparr> \<rparr>
             else if key_s keys then
               ph\<lparr> tilt := (tilt ph)\<lparr> tiltX := max (tiltX (tilt ph) - 1) (- MAX_TILT) \<rparr>,
                   velocity := (velocity ph)
                     \<lparr> vz := vz (velocity ph) - cos rotationRad * MOVEMENT_SPEED * delta,
                       vx := vx (velocity ph) - sin rotationRad * MOVEMENT_SPEED * delta \<rparr> \<rparr>
             else ph\<lparr> tilt := (tilt ph)\<lparr> tiltX := tiltX (tilt ph) * 0.95 \<rparr> \<rparr>);
          ph2 =
            (if key_a keys then
               ph1\<lparr> tilt := (tilt ph1)\<lparr> tiltZ := max (tiltZ (tilt ph1) - 1) (- MAX_TILT) \<rparr>,
                    velocity := (velocity ph1)
                     \<lparr> vx := vx (velocity ph1) + cos rotationRad * MOVEMENT_SPEED * delta,
                       vz := vz (velocity ph1) - sin rotationRad * MOVEMENT_SPEED * delta \<rparr> \<rparr>
             else if key_d keys then
               ph1\<lparr> tilt := (tilt ph1)\<lparr> tiltZ := min (tiltZ (tilt ph1) + 1) MAX_TILT \<rparr>,
                    velocity := (velocity ph1)
                     \<lparr> vx := vx (velocity ph1) - cos rotationRad * MOVEMENT_SPEED * delta,
                       vz := vz (velocity ph1) + sin rotationRad * MOVEMENT_SPEED * delta \<rparr> \<rparr>
             else ph1\<lparr> tilt := (tilt ph1)\<lparr> tiltZ := tiltZ (tilt ph1) * 0.95 \<rparr> \<rparr>)
      in if key_r keys then reset ph2 else ph2)"

definition applyDrag :: "DronePhysics \<Rightarrow> DronePhysics" where
  "applyDrag ph = ph\<lparr> velocity :=
      \<lparr> vx = vx (velocity ph) * DRAG_FACTOR,
        vy = vy (velocity ph) * VERTICAL_DRAG_FACTOR,
        vz = vz (velocity ph) * DRAG_FACTOR \<rparr> \<rparr>"

definition updatePosition :: "real \<Rightarrow> DronePhysics \<Rightarrow> DronePhysics" where
  "updatePosition delta ph = ph\<lparr> position :=
      \<lparr> vx = vx (position ph) + vx (velocity ph) * delta,
        vy = vy (position ph) + vy (velocity ph) * delta,
        vz = vz (position ph) + vz (velocity ph) * delta \<rparr> \<rparr>"

definition handleGroundCollision :: "DronePhysics \<Rightarrow> DronePhysics" where
  "handleGroundCollision ph =
     (if vy (position ph) < 1
      then ph\<lparr> position := (position ph)\<lparr> vy := 1 \<rparr>, velocity := (velocity ph)\<lparr> vy := 0 \<rparr> \<rparr>
      else ph)"

definition steerTowardsPoint :: "Vector3 \<Rightarrow> real \<Rightarrow> DronePhysics \<Rightarrow> DronePhysics" where
  "steerTowardsPoint targetWorldPos delta ph =
     (let desiredVelocity = subVectors targetWorldPos (position ph);
          distanceToTarget = vlength desiredVelocity;
          ph1 =
            (if distanceToTarget > 0.1 then
               let targetRotationRad = atan2 (vx desiredVelocity) (vz desiredVelocity);
                   deg0 = radToDeg targetRotationRad;
                   targetRotationDeg = (if deg0 < 0 then deg0 + 360 else deg0);
                   diff0 = targetRotationDeg - rotation ph;
                   diff1 = (if diff0 > 180 then diff0 - 360 else diff0);
                   rotationDiff = (if diff1 < - 180 then diff1 + 360 else diff1);
                   maxRotationChange = ROTATION_SPEED * 2.0;
                   r = rotation ph
                     + clamp rotationDiff (- maxRotationChange) maxRotationChange * delta * 50
               in ph\<lparr> rotation := jsRemainder (r + 360) 360 \<rparr>
             else ph);
          heightDifference = vy targetWorldPos - vy (position ph1);
          verticalSpeedFactor = 5.0;
          vy1 = (if \<bar>heightDifference\<bar> > 0.2
                 then vy (velocity ph1) + heightDifference * verticalSpeedFactor * delta
                 else vy (velocity ph1) * 0.8);
          ph2 = ph1\<lparr> velocity := (velocity ph1)\<lparr> vy := clamp vy1 (- LIFT_POWER) LIFT_POWER \<rparr> \<rparr>;
          maxHorizontalSpeed = MOVEMENT_SPEED * 0.03;
          ph3 =
            (if distanceToTarget > autonomousTargetReachedThreshold * 0.5 then
               let speedReductionFactor =
                     min 1.0 (distanceToTarget / (autonomousTargetReachedThreshold * 2));
                   dv = setLength desiredVelocity (maxHorizontalSpeed * speedReductionFactor)
               in ph2\<lparr> velocity := (velocity ph2)\<lparr> vx := vx dv, vz := vz dv \<rparr> \<rparr>
             else if distanceToTarget > 0.1 then
               let dv = setLength desiredVelocity (maxHorizontalSpeed * 0.2)
               in ph2\<lparr> velocity := (velocity ph2)\<lparr> vx := vx dv, vz := vz dv \<rparr> \<rparr>
             else ph2\<lparr> velocity := (velocity ph2)
                         \<lparr> vx := vx (velocity ph2) * 0.9, vz := vz (velocity ph2) * 0.9 \<rparr> \<rparr>);
          rotationRad = rotation ph3 * pi / 180;
          localVelocityZ = vz (velocity ph3) * cos rotationRad - vx (velocity ph3) * sin rotationRad;
          localVelocityX = vx (velocity ph3) * cos rotationRad + vz (velocity ph3) * sin rotationRad;
          tiltFactor = 0.5
      in ph3\<lparr> tilt := \<lparr> tiltX = clamp (localVelocityZ * tiltFactor) (- MAX_TILT) MAX_TILT,
                         tiltZ = clamp (- localVelocityX * tiltFactor) (- MAX_TILT) MAX_TILT \<rparr> \<rparr>)"

definition update ::
  "Env \<Rightarrow> real \<Rightarrow> Keys \<Rightarrow> bool \<Rightarrow> Vector3 option \<Rightarrow> DronePhysics \<Rightarrow> DronePhysics" where
  "update env delta keys isFlying autonomousTarget ph =
     (if \<not> isFlying then ph
      else if crashed ph then
        let ph1 = ph\<lparr> velocity := (velocity ph)\<lparr> vy := vy (velocity ph) - GRAVITY * delta \<rparr> \<rparr>;
            ph2 = updatePosition delta ph1;
            ph3 = handleGroundCollision ph2;
            ph4 = ph3\<lparr> altitude := vy (position ph3) \<rparr>
        in ph4\<lparr> tilt := \<lparr> tiltX = 0, tiltZ = 0 \<rparr> \<rparr>
      else
        let ph1 =
              (case autonomousTarget of
                 Some target \<Rightarrow> steerTowardsPoint target delta ph
               | None \<Rightarrow>
                   let lift = calculateLift env keys ph;
                       pa = ph\<lparr> velocity := (velocity ph)
                              \<lparr> vy := vy (velocity ph) + (lift - GRAVITY) * delta \<rparr> \<rparr>
                   in handleMovement delta keys (handleRotation keys pa));
            ph2 = applyDrag ph1;
            ph3 = updatePosition delta ph2;
            ph4 = handleGroundCollision ph3
        in ph4\<lparr> altitude := vy (position ph4) \<rparr>)"

definition moveToFormationPosition :: "Vector3 \<Rightarrow> real \<Rightarrow> real \<Rightarrow> DronePhysics \<Rightarrow> DronePhysics" where
  "moveToFormationPosition targetPosition targetRotation delta ph =
     (let ph0 = ph\<lparr> inFormation := True \<rparr>;
          moveSpeed = FORMATION_FOLLOW_SPEED * delta;
          dirX = vx targetPosition - vx (position ph0);
          dirY = vy targetPosition - vy (position ph0);
          dirZ = vz targetPosition - vz (position ph0);
          distance = sqrt (dirX * dirX + dirY * dirY + dirZ * dirZ);
          ph1 =
            (if distance > 0.1 then
               ph0\<lparr> position :=
                      \<lparr> vx = vx (position ph0) + (dirX / distance) * moveSpeed * distance,
                        vy = vy (position ph0) + (dirY / distance) * moveSpeed * distance,
                        vz = vz (position ph0) + (dirZ / distance) * moveSpeed * distance \<rparr>,
                    velocity :=
                      \<lparr> vx = (dirX / distance) * moveSpeed * distance,
                        vy = (dirY / distance) * moveSpeed * distance,
                        vz = (dirZ / distance) * moveSpeed * distance \<rparr> \<rparr>
             else
               ph0\<lparr> velocity :=
                      \<lparr> vx = vx (velocity ph0) * 0.8,
                        vy = vy (velocity ph0) * 0.8,
                        vz = vz (velocity ph0) * 0.8 \<rparr> \<rparr>);
          rotDiff = targetRotation - rotation ph1;
          normalizedRotDiff = jsRemainder (rotDiff + 180) 360 - 180;
          ph2 =
            (if \<bar>normalizedRotDiff\<bar> > 0.5
             then ph1\<lparr> rotation := jsRemainder (rotation ph1 + normalizedRotDiff * 0.1 + 360) 360 \<rparr>
             else ph1);
          ph3 = ph2\<lparr> tilt := \<lparr> tiltX = tiltX (tilt ph2) * 0.9, tiltZ = tiltZ (tilt ph2) * 0.9 \<rparr> \<rparr>
      in ph3\<lparr> altitude := vy (position ph3) \<rparr>)"

definition exitFormation :: "DronePhysics \<Rightarrow> DronePhysics" where
  "exitFormation ph = ph\<lparr> inFormation := False \<rparr>"

text \<open>A run of ticks of a flying drone: each tick has its own inputs.\<close>

record Tick =
  tickEnv :: Env
  tickDelta :: real
  tickKeys :: Keys
  tickTarget :: "Vector3 option"

definition runTicks :: "Tick list \<Rightarrow> DronePhysics \<Rightarrow> DronePhysics" where
  "runTicks ts ph =
     fold (\<lambda>t. update (tickEnv t) (tickDelta t) (tickKeys t) True (tickTarget t)) ts ph"

definition tiltBounded :: "DronePhysics \<Rightarrow> bool" where
  "tiltBounded ph \<longleftrightarrow> \<bar>tiltX (tilt ph)\<bar> \<le> MAX_TILT \<and> \<bar>tiltZ (tilt ph)\<bar> \<le> MAX_TILT"

section \<open>Drone\<close>

record Drone =
  physics :: DronePhysics
  isFlying :: bool
  navigationGrid :: "NavigationGrid option"
  isAutonomous :: bool
  waypoints :: "Vector3 list"
  currentWaypointIndex :: int
  currentPath :: "Vector3 list option"
  currentTargetPathNodeIndex :: int

definition newDrone :: "Vector3 \<Rightarrow> NavigationGrid option \<Rightarrow> Drone" where
  "newDrone initialPosition navigationGrid0 =
     \<lparr> physics = newDronePhysics initialPosition, isFlying = False,
       navigationGrid = navigationGrid0, isAutonomous = False, waypoints = [],
       currentWaypointIndex = - 1, currentPath = None, currentTargetPathNodeIndex = - 1 \<rparr>"

definition calculatePathToCurrentWaypoint :: "Drone \<Rightarrow> Drone option" where
  "calculatePathToCurrentWaypoint d =
     (case navigationGrid d of
        None \<Rightarrow> Some (d\<lparr> currentPath := None, currentTargetPathNodeIndex := - 1 \<rparr>)
      | Some g \<Rightarrow>
          if currentWaypointIndex d < 0 \<or> currentWaypointIndex d \<ge> int (length (waypoints d))
          then Some (d\<lparr> currentPath := None, currentTargetPathNodeIndex := - 1 \<rparr>)
          else
            (case findPath g (position (physics d)) (waypoints d ! nat (currentWaypointIndex d))
                    defaultSafetyMargin defaultAltitudePenalty of
               None \<Rightarrow> None
             | Some None \<Rightarrow> Some (d\<lparr> currentPath := None, currentTargetPathNodeIndex := - 1 \<rparr>)
             | Some (Some path) \<Rightarrow>
                 if length path > 0
                 then Some (d\<lparr> currentPath := Some path, currentTargetPathNodeIndex := 0 \<rparr>)
                 else Some (d\<lparr> currentPath := None, currentTargetPathNodeIndex := - 1 \<rparr>)))"

definition setWaypoints :: "Vector3 list \<Rightarrow> Drone \<Rightarrow> Drone option" where
  "setWaypoints waypointsArray d =
     (let d1 = d\<lparr> waypoints := waypointsArray, currentWaypointIndex := 0,
                  currentPath := None, currentTargetPathNodeIndex := - 1 \<rparr>
      in if isAutonomous d1 \<and> length (waypoints d1) > 0
         then calculatePathToCurrentWaypoint d1 else Some d1)"

definition toggleAutonomousMode :: "Drone \<Rightarrow> Drone option" where
  "toggleAutonomousMode d =
     (let d1 = d\<lparr> isAutonomous := \<not> isAutonomous d \<rparr>
      in if isAutonomous d1 then
           let d2 = d1\<lparr> physics := exitFormation (physics d1) \<rparr>
           in if length (waypoints d2) > 0
                 \<and> currentWaypointIndex d2 < int (length (waypoints d2))
                 \<and> currentPath d2 = None
              then calculatePathToCurrentWaypoint d2 else Some d2
         else Some (d1\<lparr> currentPath := None, currentTargetPathNodeIndex := - 1 \<rparr>))"

text \<open>
  \<open>_updateAutonomousMovement\<close>. Reading a path node outside the path gives
  \<open>undefined\<close>, and \<open>distanceTo\<close> on it throws: the result \<open>None\<close>.
\<close>

definition updateAutonomousMovement :: "Env \<Rightarrow> real \<Rightarrow> Drone \<Rightarrow> Drone option" where
  "updateAutonomousMovement env delta d =
     (if length (waypoints d) = 0 \<or> currentWaypointIndex d < 0
         \<or> currentWaypointIndex d \<ge> int (length (waypoints d)) then
        let d1 = (if isAutonomous d \<and> length (waypoints d) > 0
                     \<and> currentWaypointIndex d \<ge> int (length (waypoints d))
                  then d\<lparr> isAutonomous := False \<rparr> else d)
        in Some (d1\<lparr> physics := update env delta noKeys (isFlying d1) None (physics d1) \<rparr>)
      else
        (case (if currentPath d = None \<or> currentTargetPathNodeIndex d < 0
               then calculatePathToCurrentWaypoint d else Some d) of
           None \<Rightarrow> None
         | Some d1 \<Rightarrow>
             (case currentPath d1 of
                None \<Rightarrow>
                  Some (d1\<lparr> physics := update env delta noKeys (isFlying d1) None (physics d1) \<rparr>)
              | Some path \<Rightarrow>
                  if currentTargetPathNodeIndex d1 < 0
                     \<or> currentTargetPathNodeIndex d1 \<ge> int (length path) then None
                  else
                    let targetPathNode = path ! nat (currentTargetPathNodeIndex d1);
                        d2 = d1\<lparr> physics := update env delta noKeys (isFlying d1)
                                              (Some targetPathNode) (physics d1) \<rparr>;
                        distanceToNode = distanceTo (position (physics d2)) targetPathNode
                    in if distanceToNode < autonomousTargetReachedThreshold then
                         let d3 = d2\<lparr> currentTargetPathNodeIndex :=
                                         currentTargetPathNodeIndex d2 + 1 \<rparr>
                         in if currentTargetPathNodeIndex d3 \<ge> int (length path) then
                              let d4 = d3\<lparr> currentWaypointIndex := currentWaypointIndex d3 + 1,
                                           currentPath := None,
                                           currentTargetPathNodeIndex := - 1 \<rparr>
                              in if currentWaypointIndex d4 \<ge> int (length (waypoints d4))
                                 then Some (d4\<lparr> isAutonomous := False \<rparr>) else Some d4
                            else Some d3
                       else Some d2)))"

text \<open>
  \<open>followFormationPosition\<close>, which \<open>DroneManager.update\<close> calls on every drone
  that is not the active one while the fleet is in formation mode, with the slot that
  \<open>_calculateFormationPositions\<close> gives it.
\<close>

definition followFormationPosition :: "Vector3 \<Rightarrow> real \<Rightarrow> real \<Rightarrow> Drone \<Rightarrow> Drone" where
  "followFormationPosition targetPosition targetRotation delta d =
     (if \<not> isFlying d then d
      else d\<lparr> physics := moveToFormationPosition targetPosition targetRotation delta (physics d) \<rparr>)"

section \<open>DroneManager\<close>

record DroneManager =
  drones :: "Drone list"
  activeDroneIndex :: int
  formationMode :: bool
  formationPattern :: string
  formationSpacing :: real

record FormationSlot =
  slotIndex :: nat
  slotPosition :: Vector3
  slotRotation :: real

definition rotatedSlot :: "Drone \<Rightarrow> nat \<Rightarrow> real \<Rightarrow> real \<Rightarrow> FormationSlot" where
  "rotatedSlot leader i xOffset zOffset =
     (let leaderPosition = position (physics leader);
          leaderRotation = rotation (physics leader) * pi / 180;
          rotatedX = xOffset * cos leaderRotation - zOffset * sin leaderRotation;
          rotatedZ = xOffset * sin leaderRotation + zOffset * cos leaderRotation
      in \<lparr> slotIndex = i,
           slotPosition = \<lparr> vx = vx leaderPosition + rotatedX, vy = vy leaderPosition,
                            vz = vz leaderPosition + rotatedZ \<rparr>,
           slotRotation = rotation (physics leader) \<rparr>)"

definition vSlot :: "DroneManager \<Rightarrow> Drone \<Rightarrow> nat \<Rightarrow> FormationSlot list \<Rightarrow> FormationSlot list" where
  "vSlot m leader i positions =
     (if int i = activeDroneIndex m then positions
      else
        let index = length positions;
            side = (if index mod 2 = 0 then 1 else - 1);
            row = real (index div 2 + 1);
            xOffset = side * formationSpacing m * row;
            zOffset = - formationSpacing m * row
        in positions @ [rotatedSlot leader i xOffset zOffset])"

definition lineSlot :: "DroneManager \<Rightarrow> Drone \<Rightarrow> nat \<Rightarrow> FormationSlot list \<Rightarrow> FormationSlot list" where
  "lineSlot m leader i positions =
     (if int i = activeDroneIndex m then positions
      else
        let row = real (length positions + 1);
            xOffset = 0;
            zOffset = - formationSpacing m * row
        in positions @ [rotatedSlot leader i xOffset zOffset])"

definition squareSlot ::
  "DroneManager \<Rightarrow> Drone \<Rightarrow> int \<Rightarrow> nat \<Rightarrow> FormationSlot list \<times> int \<Rightarrow> FormationSlot list \<times> int" where
  "squareSlot m leader squareSize i acc =
     (case acc of (positions, posIndex) \<Rightarrow>
        if int i = activeDroneIndex m then (positions, posIndex)
        else
          let row = \<lfloor>real_of_int posIndex / real_of_int squareSize\<rfloor>;
              col = posIndex mod squareSize;
              xOffset = (real_of_int col - (real_of_int squareSize - 1) / 2) * formationSpacing m;
              zOffset = - real_of_int row * formationSpacing m - formationSpacing m
          in (positions @ [rotatedSlot leader i xOffset zOffset], posIndex + 1))"

text \<open>
  \<open>_calculateFormationPositions\<close>. An active index that is neither \<open>-1\<close> nor an index
  of \<open>drones\<close> makes \<open>leader\<close> undefined, and reading its \<open>physics\<close> throws.
\<close>

definition calculateFormationPositions :: "DroneManager \<Rightarrow> FormationSlot list option" where
  "calculateFormationPositions m =
     (if \<not> formationMode m \<or> length (drones m) \<le> 1 \<or> activeDroneIndex m = - 1 then Some []
      else if activeDroneIndex m < 0 \<or> activeDroneIndex m \<ge> int (length (drones m)) then None
      else
        let leader = drones m ! nat (activeDroneIndex m)
        in if formationPattern m = ''v''
             then Some (fold (vSlot m leader) [0..<length (drones m)] [])
           else if formationPattern m = ''line''
             then Some (fold (lineSlot m leader) [0..<length (drones m)] [])
           else if formationPattern m = ''square''
             then Some (fst (fold (squareSlot m leader \<lceil>sqrt (real (length (drones m) - 1))\<rceil>)
                                [0..<length (drones m)] ([], 0)))
           else Some [])"

section \<open>Example drones\<close>

text \<open>A fleet of three fresh drones in V formation, led by the first, and a crashed drone.\<close>

definition fleetOfThree :: DroneManager where
  "fleetOfThree =
     \<lparr> drones = [newDrone \<lparr> vx = 0, vy = 10, vz = 0 \<rparr> None,
                 newDrone \<lparr> vx = 3, vy = 10, vz = 0 \<rparr> None,
                 newDrone \<lparr> vx = 6, vy = 10, vz = 0 \<rparr> None],
       activeDroneIndex = 0, formationMode = True, formationPattern = ''v'',
       formationSpacing = 5 \<rparr>"

definition crashedDrone :: DronePhysics where
  "crashedDrone =
     \<lparr> altitude = 5, velocity = \<lparr> vx = 0, vy = 2, vz = 0 \<rparr>, rotation = 90,
       tilt = \<lparr> tiltX = 12, tiltZ = - 30 \<rparr>, position = \<lparr> vx = 4, vy = 5, vz = 4 \<rparr>,
       inFormation = False, crashed = True \<rparr>"

definition someTicks :: "Tick list" where
  "someTicks =
     [\<lparr> tickEnv = \<lparr> dateNow = 0, mathRandom = 1 / 2 \<rparr>, tickDelta = 1 / 10,
        tickKeys = noKeys\<lparr> key_w := True, key_q := True, key_ArrowUp := True \<rparr>,
        tickTarget = None \<rparr>,
      \<lparr> tickEnv = \<lparr> dateNow = 16, mathRandom = 1 / 4 \<rparr>, tickDelta = 1 / 10,
        tickKeys = noKeys, tickTarget = Some \<lparr> vx = 20, vy = 15, vz = 0 \<rparr> \<rparr>]"

text \<open>A flying drone of a fleet, with the crashed physics state above.\<close>

definition crashedFollower :: Drone where
  "crashedFollower =
     (newDrone \<lparr> vx = 4, vy = 5, vz = 4 \<rparr> None)\<lparr> physics := crashedDrone, isFlying := True \<rparr>"

section \<open>Grid properties\<close>

lemma floor_add_half: "\<lfloor>(of_int i + 0.5 :: real)\<rfloor> = i"
  by linarith

text \<open>The frame of the population: sizes, counts and cell centres stay as they are.\<close>

lemma resetObstacles_frame:
  "worldWidth (resetObstacles g) = worldWidth g \<and> worldDepth (resetObstacles g) = worldDepth g
   \<and> cellSize (resetObstacles g) = cellSize g
   \<and> gridCellsX (resetObstacles g) = gridCellsX g \<and> gridCellsZ (resetObstacles g) = gridCellsZ g
   \<and> worldX (grid (resetObstacles g) i j) = worldX (grid g i j)
   \<and> worldZ (grid (resetObstacles g) i j) = worldZ (grid g i j)"
  by (simp add: resetObstacles_def resetCell_def)

lemma markCell_frame:
  "worldWidth (markCell t a b g) = worldWidth g \<and> worldDepth (markCell t a b g) = worldDepth g
   \<and> cellSize (markCell t a b g) = cellSize g
   \<and> gridCellsX (markCell t a b g) = gridCellsX g \<and> gridCellsZ (markCell t a b g) = gridCellsZ g
   \<and> worldX (grid (markCell t a b g) i j) = worldX (grid g i j)
   \<and> worldZ (grid (markCell t a b g) i j) = worldZ (grid g i j)"
  by (simp add: markCell_def)

lemma fold_markCell_frame:
  "worldWidth (fold (markCell t a) bs g) = worldWidth g
   \<and> worldDepth (fold (markCell t a) bs g) = worldDepth g
   \<and> cellSize (fold (markCell t a) bs g) = cellSize g
   \<and> gridCellsX (fold (markCell t a) bs g) = gridCellsX g
   \<and> gridCellsZ (fold (markCell t a) bs g) = gridCellsZ g
   \<and> worldX (grid (fold (markCell t a) bs g) i j) = worldX (grid g i j)
   \<and> worldZ (grid (fold (markCell t a) bs g) i j) = worldZ (grid g i j)"
  by (induction bs arbitrary: g) (simp_all add: markCell_frame)

lemma markColumn_frame:
  "worldWidth (markColumn t z0 z1 a g) = worldWidth g
   \<and> worldDepth (markColumn t z0 z1 a g) = worldDepth g
   \<and> cellSize (markColumn t z0 z1 a g) = cellSize g
   \<and> gridCellsX (markColumn t z0 z1 a g) = gridCellsX g
   \<and> gridCellsZ (markColumn t z0 z1 a g) = gridCellsZ g
   \<and> worldX (grid (markColumn t z0 z1 a g) i j) = worldX (grid g i j)
   \<and> worldZ (grid (markColumn t z0 z1 a g) i j) = worldZ (grid g i j)"
  by (simp add: markColumn_def fold_markCell_frame)

lemma fold_markColumn_frame:
  "worldWidth (fold (markColumn t z0 z1) as g) = worldWidth g
   \<and> worldDepth (fold (markColumn t z0 z1) as g) = worldDepth g
   \<and> cellSize (fold (markColumn t z0 z1) as g) = cellSize g
   \<and> gridCellsX (fold (markColumn t z0 z1) as g) = gridCellsX g
   \<and> gridCellsZ (fold (markColumn t z0 z1) as g) = gridCellsZ g
   \<and> worldX (grid (fold (markColumn t z0 z1) as g) i j) = worldX (grid g i j)
   \<and> worldZ (grid (fold (markColumn t z0 z1) as g) i j) = worldZ (grid g i j)"
  by (induction as arbitrary: g) (simp_all add: markColumn_frame)

lemma markObject_frame:
  "worldWidth (markObject b g) = worldWidth g \<and> worldDepth (markObject b g) = worldDepth g
   \<and> cellSize (markObject b g) = cellSize g
   \<and> gridCellsX (markObject b g) = gridCellsX g \<and> gridCellsZ (markObject b g) = gridCellsZ g
   \<and> worldX (grid (markObject b g) i j) = worldX (grid g i j)
   \<and> worldZ (grid (markObject b g) i j) = worldZ (grid g i j)"
  by (simp add: markObject_def fold_markColumn_frame split: option.splits prod.splits)

lemma fold_markObject_frame:
  "worldWidth (fold markObject objs g) = worldWidth g
   \<and> worldDepth (fold markObject objs g) = worldDepth g
   \<and> cellSize (fold markObject objs g) = cellSize g
   \<and> gridCellsX (fold markObject objs g) = gridCellsX g
   \<and> gridCellsZ (fold markObject objs g) = gridCellsZ g
   \<and> worldX (grid (fold markObject objs g) i j) = worldX (grid g i j)
   \<and> worldZ (grid (fold markObject objs g) i j) = worldZ (grid g i j)"
  by (induction objs arbitrary: g) (simp_all add: markObject_frame)

lemma populate_frame:
  "worldWidth (populateFromObjects objs g) = worldWidth g
   \<and> worldDepth (populateFromObjects objs g) = worldDepth g
   \<and> cellSize (populateFromObjects objs g) = cellSize g
   \<and> gridCellsX (populateFromObjects objs g) = gridCellsX g
   \<and> gridCellsZ (populateFromObjects objs g) = gridCellsZ g
   \<and> worldX (grid (populateFromObjects objs g) i j) = worldX (grid g i j)
   \<and> worldZ (grid (populateFromObjects objs g) i j) = worldZ (grid g i j)"
  by (simp add: populateFromObjects_def fold_markObject_frame resetObstacles_frame)

lemma populations_frame:
  "worldWidth (fold populateFromObjects pops g) = worldWidth g
   \<and> worldDepth (fold populateFromObjects pops g) = worldDepth g
   \<and> cellSize (fold populateFromObjects pops g) = cellSize g
   \<and> gridCellsX (fold populateFromObjects pops g) = gridCellsX g
   \<and> gridCellsZ (fold populateFromObjects pops g) = gridCellsZ g
   \<and> worldX (grid (fold populateFromObjects pops g) i j) = worldX (grid g i j)
   \<and> worldZ (grid (fold populateFromObjects pops g) i j) = worldZ (grid g i j)"
  by (induction pops arbitrary: g) (simp_all add: populate_frame)

text \<open>
  C8. Every grid the program can hold is one the constructor built, populated any number
  of times: \<open>populateFromObjects\<close> is the only function that writes to the sizes, counts
  and cells of a grid (the cost fields of \<open>findPath\<close> are kept apart from the grid
  here). For such a grid and every index pair inside it, \<open>gridToWorldCoordinates\<close> returns the
  centre of the cell and \<open>worldToGridCoordinates\<close> maps that centre back to the same
  pair. The constructor builds a cell only when \<open>cellSize\<close> is not zero.
\<close>

theorem grid_world_roundtrip:
  assumes "cs \<noteq> 0"
      and "g = fold populateFromObjects pops (newNavigationGrid w d cs gl qx qz)"
      and "0 \<le> i" "i < gridCellsX g" "0 \<le> j" "j < gridCellsZ g"
  shows "\<exists>x z. gridToWorldCoordinates g i j = Some (x, z)
            \<and> worldToGridCoordinates g x z = Some (i, j)"
proof -
  let ?g0 = "newNavigationGrid w d cs gl qx qz"
  from populations_frame [of pops ?g0 i j] assms(2)
  have fr: "worldWidth g = w" "worldDepth g = d" "cellSize g = cs"
    "worldX (grid g i j) = (of_int i + 0.5) * cs - w / 2"
    "worldZ (grid g i j) = (of_int j + 0.5) * cs - d / 2"
    by (simp_all add: newNavigationGrid_def newCell_def)
  have fx: "\<lfloor>((of_int i + 0.5) * cs - w / 2 + w / 2) / cs\<rfloor> = i"
    using assms(1) floor_add_half [of i] by simp
  have fz: "\<lfloor>((of_int j + 0.5) * cs - d / 2 + d / 2) / cs\<rfloor> = j"
    using assms(1) floor_add_half [of j] by simp
  have ret: "worldToGridCoordinates g ((of_int i + 0.5) * cs - w / 2) ((of_int j + 0.5) * cs - d / 2)
      = Some (i, j)"
    using assms(3-6) fx fz
    by (simp add: worldToGridCoordinates_def fr(1,2,3) Let_def)
  have cen: "gridToWorldCoordinates g i j
      = Some ((of_int i + 0.5) * cs - w / 2, (of_int j + 0.5) * cs - d / 2)"
    using assms(3-6) fr(4,5) by (simp add: gridToWorldCoordinates_def)
  from cen ret show ?thesis by blast
qed

theorem grid_world_roundtrip_witness:
  "(4 / 10 :: real) \<noteq> 0 \<and> gridCellsX smallGrid = 2 \<and> gridCellsZ smallGrid = 2
   \<and> isObstacle (grid smallGrid 0 0)
   \<and> (\<exists>x z. gridToWorldCoordinates smallGrid 0 0 = Some (x, z)
            \<and> worldToGridCoordinates smallGrid x z = Some (0, 0))
   \<and> (\<exists>x z. gridToWorldCoordinates smallGrid 1 1 = Some (x, z)
            \<and> worldToGridCoordinates smallGrid x z = Some (1, 1))"
proof -
  let ?box = "\<lparr>minX = - (1 / 2), maxX = - (3 / 10), minZ = - (1 / 2), maxZ = - (3 / 10), maxY = 3\<rparr>"
  have g: "smallGrid = fold populateFromObjects [[?box]]
      (newNavigationGrid (12 / 10) (12 / 10) (4 / 10) 0
         (29999999999999996 / 10000000000000000) (29999999999999996 / 10000000000000000))"
    by (simp add: smallGrid_def)
  have n: "gridCellsX smallGrid = 2" "gridCellsZ smallGrid = 2"
    using populate_frame [of "[?box]" "newNavigationGrid (12 / 10) (12 / 10) (4 / 10) 0
         (29999999999999996 / 10000000000000000) (29999999999999996 / 10000000000000000)"]
    by (simp_all add: smallGrid_def newNavigationGrid_def)
  have ob: "isObstacle (grid smallGrid 0 0)"
    by (simp add: smallGrid_def populateFromObjects_def markObject_def markColumn_def
      markCell_def resetObstacles_def resetCell_def worldToGridCoordinates_def
      newNavigationGrid_def newCell_def Let_def)
  have c: "(4 / 10 :: real) \<noteq> 0" by simp
  from grid_world_roundtrip [OF c g, of 0 0] grid_world_roundtrip [OF c g, of 1 1] n ob
  show ?thesis by simp
qed

lemma resetCell_mark:
  "resetCell g (c\<lparr> isObstacle := b, maxObstacleHeight := h \<rparr>) = resetCell g c"
  by (simp add: resetCell_def)

lemma markCell_fields:
  "worldWidth (markCell t i j g) = worldWidth g"
  "worldDepth (markCell t i j g) = worldDepth g"
  "cellSize (markCell t i j g) = cellSize g"
  "groundLevel (markCell t i j g) = groundLevel g"
  "gridCellsX (markCell t i j g) = gridCellsX g"
  "gridCellsZ (markCell t i j g) = gridCellsZ g"
  by (simp_all add: markCell_def)

lemma reset_markCell:
  assumes "0 \<le> i" "i < gridCellsX g"
  shows "resetObstacles (markCell t i j g) = resetObstacles g"
proof (cases "j < 0 \<or> j \<ge> gridCellsZ g")
  case True
  then show ?thesis by (simp add: markCell_def)
next
  case False
  with assms show ?thesis
    unfolding markCell_def resetObstacles_def resetCell_def
    by (auto simp: fun_eq_iff)
qed

lemma fold_markCell:
  assumes "0 \<le> i" "i < gridCellsX g"
  shows "resetObstacles (fold (markCell t i) js g) = resetObstacles g
       \<and> gridCellsX (fold (markCell t i) js g) = gridCellsX g"
  using assms
proof (induction js arbitrary: g)
  case Nil
  then show ?case by simp
next
  case (Cons j js)
  then show ?case
    by (simp add: reset_markCell markCell_fields)
qed

lemma markColumn_reset:
  "resetObstacles (markColumn t z0 z1 i g) = resetObstacles g
       \<and> gridCellsX (markColumn t z0 z1 i g) = gridCellsX g"
  using fold_markCell [of i g t "[z0..z1]"]
  by (auto simp: markColumn_def)

lemma fold_markColumn:
  "resetObstacles (fold (markColumn t z0 z1) is g) = resetObstacles g"
  by (induction "is" arbitrary: g) (simp_all add: markColumn_reset)

lemma markObject_reset: "resetObstacles (markObject b g) = resetObstacles g"
  by (simp add: markObject_def fold_markColumn split: option.splits prod.splits)

lemma fold_markObject: "resetObstacles (fold markObject objs g) = resetObstacles g"
  by (induction objs arbitrary: g) (simp_all add: markObject_reset)

lemma resetObstacles_idem: "resetObstacles (resetObstacles g) = resetObstacles g"
  by (simp add: resetObstacles_def resetCell_def fun_eq_iff)

text \<open>
  C9. Populating a grid twice in a row with the same obstacle list gives the same grid
  (every field, and so every cell's \<open>isObstacle\<close> and \<open>maxObstacleHeight\<close>) as
  populating it once.
\<close>

theorem populate_idempotent:
  "populateFromObjects objs (populateFromObjects objs g) = populateFromObjects objs g"
  by (simp add: populateFromObjects_def fold_markObject resetObstacles_idem)

section \<open>Pathfinder properties\<close>

lemmas grid_pre = worldToGridCoordinates_def newNavigationGrid_def newCell_def cellAt_def
      resetNode_def Let_def sortByFCost_def getNeighbors_def directions_def
      reconstructPath_def

lemmas grid_eval = worldToGridCoordinates_def newNavigationGrid_def newCell_def cellAt_def
      resetNode_def heuristic_def Let_def sortByFCost_def defaultSafetyMargin_def defaultAltitudePenalty_def getNeighbors_def directions_def
      visitNeighbor_def reconstructPath_def

lemma twoCells_leg:
  "findPath twoCells \<lparr>vx = - (1 / 2), vy = 5, vz = 0\<rparr> \<lparr>vx = 1 / 2, vy = 7, vz = 0\<rparr> defaultSafetyMargin defaultAltitudePenalty
     = Some (Some [\<lparr>vx = - (1 / 2), vy = 7, vz = 0\<rparr>, \<lparr>vx = 1 / 2, vy = 7, vz = 0\<rparr>])"
  apply (simp add: findPath_def twoCells_def grid_eval)
  apply (subst searchLoop.simps)
  apply (simp add: grid_eval)
  apply (subst searchLoop.simps)
  apply (simp add: grid_eval reconstructLoop.simps)
  done

lemma twoCells_outside:
  "findPath twoCells \<lparr>vx = 1 / 2, vy = 7, vz = 0\<rparr> \<lparr>vx = 50, vy = 7, vz = 0\<rparr> defaultSafetyMargin defaultAltitudePenalty = Some None"
  by (simp add: findPath_def twoCells_def grid_eval)

lemma blockedCells_start: "isObstacle (cellAt blockedCells (0, 0))"
  by (simp add: blockedCells_def populateFromObjects_def markObject_def markColumn_def
      markCell_def resetObstacles_def resetCell_def twoCells_def grid_eval)

text \<open>
  C7. \<open>findPath\<close> returns \<open>null\<close> whenever the start or the end position maps outside
  the grid or into a cell flagged as an obstacle. The search loop plays no part: the
  result holds for every grid, also one on which the loop would not end.
\<close>

theorem findPath_rejects_bad_endpoints:
  assumes "(case worldToGridCoordinates g (vx startWorldPos) (vz startWorldPos) of
              None \<Rightarrow> True | Some c \<Rightarrow> isObstacle (cellAt g c))
         \<or> (case worldToGridCoordinates g (vx endWorldPos) (vz endWorldPos) of
              None \<Rightarrow> True | Some c \<Rightarrow> isObstacle (cellAt g c))"
  shows "findPath g startWorldPos endWorldPos m p = Some None"
  using assms
  by (auto simp: findPath_def split: option.splits)

theorem findPath_rejects_bad_endpoints_witness:
  "worldToGridCoordinates blockedCells (- (1 / 2)) 0 = Some (0, 0)
   \<and> isObstacle (cellAt blockedCells (0, 0))
   \<and> findPath blockedCells \<lparr>vx = - (1 / 2), vy = 5, vz = 0\<rparr> \<lparr>vx = 1 / 2, vy = 7, vz = 0\<rparr> defaultSafetyMargin defaultAltitudePenalty = Some None"
proof -
  have w: "worldToGridCoordinates blockedCells (- (1 / 2)) 0 = Some (0, 0)"
    by (simp add: blockedCells_def populateFromObjects_def markObject_def markColumn_def
      markCell_def resetObstacles_def resetCell_def twoCells_def grid_eval)
  from findPath_rejects_bad_endpoints [of blockedCells "\<lparr>vx = - (1 / 2), vy = 5, vz = 0\<rparr>"
      "\<lparr>vx = 1 / 2, vy = 7, vz = 0\<rparr>" defaultSafetyMargin defaultAltitudePenalty] w blockedCells_start
  show ?thesis by simp
qed

text \<open>
  The search on the open grid of ten by ten cells. Bounds on the square roots that the
  costs contain decide every comparison of the sort; the costs of the cells on the
  diagonal are \<open>9 * sqrt 2\<close> plus the cost of the first change of altitude, those of
  every other open cell are larger by 0.3 or more.
\<close>

lemma sqrt_2_bounds: "1414213 / 1000000 < sqrt 2" "sqrt 2 < 1414214 / 1000000"
  by (rule real_less_rsqrt, simp add: power2_eq_square) (rule real_less_lsqrt, simp_all add: power2_eq_square)

lemma sqrt_5_bounds: "2236067 / 1000000 < sqrt 5" "sqrt 5 < 2236068 / 1000000"
  by (rule real_less_rsqrt, simp add: power2_eq_square) (rule real_less_lsqrt, simp_all add: power2_eq_square)

lemma sqrt_10_bounds: "3162277 / 1000000 < sqrt 10" "sqrt 10 < 3162278 / 1000000"
  by (rule real_less_rsqrt, simp add: power2_eq_square) (rule real_less_lsqrt, simp_all add: power2_eq_square)

lemma sqrt_13_bounds: "3605551 / 1000000 < sqrt 13" "sqrt 13 < 3605552 / 1000000"
  by (rule real_less_rsqrt, simp add: power2_eq_square) (rule real_less_lsqrt, simp_all add: power2_eq_square)

lemma sqrt_20_bounds: "4472135 / 1000000 < sqrt 20" "sqrt 20 < 4472136 / 1000000"
  by (rule real_less_rsqrt, simp add: power2_eq_square) (rule real_less_lsqrt, simp_all add: power2_eq_square)

lemma sqrt_34_bounds: "5830951 / 1000000 < sqrt 34" "sqrt 34 < 5830952 / 1000000"
  by (rule real_less_rsqrt, simp add: power2_eq_square) (rule real_less_lsqrt, simp_all add: power2_eq_square)

lemma sqrt_41_bounds: "6403124 / 1000000 < sqrt 41" "sqrt 41 < 6403125 / 1000000"
  by (rule real_less_rsqrt, simp add: power2_eq_square) (rule real_less_lsqrt, simp_all add: power2_eq_square)

lemma sqrt_52_bounds: "7211102 / 1000000 < sqrt 52" "sqrt 52 < 7211103 / 1000000"
  by (rule real_less_rsqrt, simp add: power2_eq_square) (rule real_less_lsqrt, simp_all add: power2_eq_square)

lemma sqrt_61_bounds: "7810249 / 1000000 < sqrt 61" "sqrt 61 < 7810250 / 1000000"
  by (rule real_less_rsqrt, simp add: power2_eq_square) (rule real_less_lsqrt, simp_all add: power2_eq_square)

lemma sqrt_74_bounds: "8602325 / 1000000 < sqrt 74" "sqrt 74 < 8602326 / 1000000"
  by (rule real_less_rsqrt, simp add: power2_eq_square) (rule real_less_lsqrt, simp_all add: power2_eq_square)

lemma sqrt_85_bounds: "9219544 / 1000000 < sqrt 85" "sqrt 85 < 9219545 / 1000000"
  by (rule real_less_rsqrt, simp add: power2_eq_square) (rule real_less_lsqrt, simp_all add: power2_eq_square)

lemma sqrt_113_bounds: "10630145 / 1000000 < sqrt 113" "sqrt 113 < 10630146 / 1000000"
  by (rule real_less_rsqrt, simp add: power2_eq_square) (rule real_less_lsqrt, simp_all add: power2_eq_square)

lemma sqrt_130_bounds: "11401754 / 1000000 < sqrt 130" "sqrt 130 < 11401755 / 1000000"
  by (rule real_less_rsqrt, simp add: power2_eq_square) (rule real_less_lsqrt, simp_all add: power2_eq_square)

lemma sqrt_145_bounds: "12041594 / 1000000 < sqrt 145" "sqrt 145 < 12041595 / 1000000"
  by (rule real_less_rsqrt, simp add: power2_eq_square) (rule real_less_lsqrt, simp_all add: power2_eq_square)

lemma sqrt_squares: "sqrt 25 = 5" "sqrt 100 = 10" "sqrt 4 = 2"
  "sqrt 128 = 8 * sqrt 2" "sqrt 98 = 7 * sqrt 2" "sqrt 72 = 6 * sqrt 2" "sqrt 50 = 5 * sqrt 2"
  "sqrt 32 = 4 * sqrt 2" "sqrt 18 = 3 * sqrt 2" "sqrt 8 = 2 * sqrt 2"
proof -
  have m: "sqrt (2 * k\<^sup>2) = k * sqrt 2" if "0 \<le> k" for k :: real
    using that by (simp add: real_sqrt_mult)
  have q: "sqrt (k\<^sup>2) = k" if "0 \<le> k" for k :: real
    using that by simp
  show "sqrt 25 = 5" using q [of 5] by simp
  show "sqrt 100 = 10" using q [of 10] by simp
  show "sqrt 4 = 2" using q [of 2] by simp
  show "sqrt 128 = 8 * sqrt 2" using m [of 8] by simp
  show "sqrt 98 = 7 * sqrt 2" using m [of 7] by simp
  show "sqrt 72 = 6 * sqrt 2" using m [of 6] by simp
  show "sqrt 50 = 5 * sqrt 2" using m [of 5] by simp
  show "sqrt 32 = 4 * sqrt 2" using m [of 4] by simp
  show "sqrt 18 = 3 * sqrt 2" using m [of 3] by simp
  show "sqrt 8 = 2 * sqrt 2" using m [of 2] by simp
qed

lemmas needed_bounds = sqrt_2_bounds sqrt_145_bounds sqrt_113_bounds sqrt_85_bounds sqrt_61_bounds
  sqrt_41_bounds sqrt_13_bounds sqrt_5_bounds sqrt_130_bounds sqrt_74_bounds sqrt_52_bounds
  sqrt_34_bounds sqrt_20_bounds sqrt_10_bounds

lemma diagonal_search:
  assumes B: "max ey 1 = B" and D: "\<bar>B - A\<bar> = D"
  shows "searchLoop (newNavigationGrid 10 10 1 0 10 10) \<lparr>vx = 9 / 2, vy = ey, vz = 9 / 2\<rparr> (9, 9) B 1 (3 / 2)
      \<lparr> nodes = (\<lambda>c. resetNode)((0, 0) := \<lparr> gCost = Fin 0, hCost = Fin h0, fCost = Fin h0, parent = None, flyY = A \<rparr>),
        openSet = [(0, 0)], closedSet = [] \<rparr>
     = Some (Some [\<lparr>vx = - (9 / 2), vy = B, vz = - (9 / 2)\<rparr>, \<lparr>vx = - (7 / 2), vy = B, vz = - (7 / 2)\<rparr>, \<lparr>vx = - (5 / 2), vy = B, vz = - (5 / 2)\<rparr>, \<lparr>vx = - (3 / 2), vy = B, vz = - (3 / 2)\<rparr>, \<lparr>vx = - (1 / 2), vy = B, vz = - (1 / 2)\<rparr>, \<lparr>vx = 1 / 2, vy = B, vz = 1 / 2\<rparr>, \<lparr>vx = 3 / 2, vy = B, vz = 3 / 2\<rparr>, \<lparr>vx = 5 / 2, vy = B, vz = 5 / 2\<rparr>, \<lparr>vx = 7 / 2, vy = B, vz = 7 / 2\<rparr>, \<lparr>vx = 9 / 2, vy = B, vz = 9 / 2\<rparr>])"
  using needed_bounds
  apply (subst searchLoop.simps)
  apply (simp add: grid_pre B D sqrt_squares)
  apply (simp add: grid_eval B D sqrt_squares)
  apply (subst searchLoop.simps)
  apply (simp add: grid_pre B D sqrt_squares)
  apply (simp add: grid_eval B D sqrt_squares)
  apply (subst searchLoop.simps)
  apply (simp add: grid_pre B D sqrt_squares)
  apply (simp add: grid_eval B D sqrt_squares)
  apply (subst searchLoop.simps)
  apply (simp add: grid_pre B D sqrt_squares)
  apply (simp add: grid_eval B D sqrt_squares)
  apply (subst searchLoop.simps)
  apply (simp add: grid_pre B D sqrt_squares)
  apply (simp add: grid_eval B D sqrt_squares)
  apply (subst searchLoop.simps)
  apply (simp add: grid_pre B D sqrt_squares)
  apply (simp add: grid_eval B D sqrt_squares)
  apply (subst searchLoop.simps)
  apply (simp add: grid_pre B D sqrt_squares)
  apply (simp add: grid_eval B D sqrt_squares)
  apply (subst searchLoop.simps)
  apply (simp add: grid_pre B D sqrt_squares)
  apply (simp add: grid_eval B D sqrt_squares)
  apply (subst searchLoop.simps)
  apply (simp add: grid_pre B D sqrt_squares)
  apply (simp add: grid_eval B D sqrt_squares)
  apply (subst searchLoop.simps)
  apply (simp add: grid_pre B D sqrt_squares)
  apply (simp add: grid_eval B D sqrt_squares reconstructLoop.simps)
  done


text \<open>
  C1. On the obstacle-free grid of ten by ten cells of size 1, \<open>findPath\<close> from the
  centre of cell (0, 0) to the centre of cell (9, 9), at any start and target altitude
  and with the default safety margin and altitude penalty, returns the ten centres of the
  cells (0, 0), (1, 1), ..., (9, 9) in this order, at the planned altitude: every step of
  the path is one cell in x and one cell in z.
\<close>

theorem findPath_diagonal:
  "gridToWorldCoordinates tenByTen 0 0 = Some (- (9 / 2), - (9 / 2))
   \<and> gridToWorldCoordinates tenByTen 9 9 = Some (9 / 2, 9 / 2)
   \<and> findPath tenByTen \<lparr>vx = - (9 / 2), vy = sy, vz = - (9 / 2)\<rparr>
        \<lparr>vx = 9 / 2, vy = ey, vz = 9 / 2\<rparr> defaultSafetyMargin defaultAltitudePenalty
       = Some (Some (map (cellCentre tenByTen (max ey 1)) [(0, 0), (1, 1), (2, 2), (3, 3), (4, 4), (5, 5), (6, 6), (7, 7), (8, 8), (9, 9)]))
   \<and> length (map (cellCentre tenByTen (max ey 1)) [(0, 0), (1, 1), (2, 2), (3, 3), (4, 4), (5, 5), (6, 6), (7, 7), (8, 8), (9, 9)]) = 10
   \<and> map (\<lambda>p. worldToGridCoordinates tenByTen (vx p) (vz p))
         (map (cellCentre tenByTen (max ey 1)) [(0, 0), (1, 1), (2, 2), (3, 3), (4, 4), (5, 5), (6, 6), (7, 7), (8, 8), (9, 9)])
       = [Some (0, 0), Some (1, 1), Some (2, 2), Some (3, 3), Some (4, 4), Some (5, 5), Some (6, 6), Some (7, 7), Some (8, 8), Some (9, 9)]"
proof -
  let ?H = "heuristic (cellAt tenByTen (0, 0)) (max sy 1) (9 / 2) (9 / 2) (max ey 1)"
  have start: "findPath tenByTen \<lparr>vx = - (9 / 2), vy = sy, vz = - (9 / 2)\<rparr>
        \<lparr>vx = 9 / 2, vy = ey, vz = 9 / 2\<rparr> defaultSafetyMargin defaultAltitudePenalty
     = searchLoop (newNavigationGrid 10 10 1 0 10 10) \<lparr>vx = 9 / 2, vy = ey, vz = 9 / 2\<rparr>
         (9, 9) (max ey 1) 1 (3 / 2)
         \<lparr> nodes = (\<lambda>c. resetNode)((0, 0) :=
                    \<lparr> gCost = Fin 0, hCost = Fin ?H, fCost = Fin ?H, parent = None,
                      flyY = max sy 1 \<rparr>),
           openSet = [(0, 0)], closedSet = [] \<rparr>"
    by (simp add: findPath_def tenByTen_def worldToGridCoordinates_def newNavigationGrid_def
        newCell_def cellAt_def resetNode_def Let_def defaultSafetyMargin_def
        defaultAltitudePenalty_def)
  have srch: "searchLoop (newNavigationGrid 10 10 1 0 10 10) \<lparr>vx = 9 / 2, vy = ey, vz = 9 / 2\<rparr>
         (9, 9) (max ey 1) 1 (3 / 2)
         \<lparr> nodes = (\<lambda>c. resetNode)((0, 0) :=
                    \<lparr> gCost = Fin 0, hCost = Fin ?H, fCost = Fin ?H, parent = None,
                      flyY = max sy 1 \<rparr>),
           openSet = [(0, 0)], closedSet = [] \<rparr>
     = Some (Some [\<lparr>vx = - (9 / 2), vy = max ey 1, vz = - (9 / 2)\<rparr>, \<lparr>vx = - (7 / 2), vy = max ey 1, vz = - (7 / 2)\<rparr>, \<lparr>vx = - (5 / 2), vy = max ey 1, vz = - (5 / 2)\<rparr>, \<lparr>vx = - (3 / 2), vy = max ey 1, vz = - (3 / 2)\<rparr>, \<lparr>vx = - (1 / 2), vy = max ey 1, vz = - (1 / 2)\<rparr>, \<lparr>vx = 1 / 2, vy = max ey 1, vz = 1 / 2\<rparr>, \<lparr>vx = 3 / 2, vy = max ey 1, vz = 3 / 2\<rparr>, \<lparr>vx = 5 / 2, vy = max ey 1, vz = 5 / 2\<rparr>, \<lparr>vx = 7 / 2, vy = max ey 1, vz = 7 / 2\<rparr>, \<lparr>vx = 9 / 2, vy = max ey 1, vz = 9 / 2\<rparr>])"
    by (rule diagonal_search [OF refl refl])
  have centres: "map (cellCentre tenByTen (max ey 1)) [(0, 0), (1, 1), (2, 2), (3, 3), (4, 4), (5, 5), (6, 6), (7, 7), (8, 8), (9, 9)]
     = [\<lparr>vx = - (9 / 2), vy = max ey 1, vz = - (9 / 2)\<rparr>, \<lparr>vx = - (7 / 2), vy = max ey 1, vz = - (7 / 2)\<rparr>, \<lparr>vx = - (5 / 2), vy = max ey 1, vz = - (5 / 2)\<rparr>, \<lparr>vx = - (3 / 2), vy = max ey 1, vz = - (3 / 2)\<rparr>, \<lparr>vx = - (1 / 2), vy = max ey 1, vz = - (1 / 2)\<rparr>, \<lparr>vx = 1 / 2, vy = max ey 1, vz = 1 / 2\<rparr>, \<lparr>vx = 3 / 2, vy = max ey 1, vz = 3 / 2\<rparr>, \<lparr>vx = 5 / 2, vy = max ey 1, vz = 5 / 2\<rparr>, \<lparr>vx = 7 / 2, vy = max ey 1, vz = 7 / 2\<rparr>, \<lparr>vx = 9 / 2, vy = max ey 1, vz = 9 / 2\<rparr>]"
    by (simp add: cellCentre_def tenByTen_def newNavigationGrid_def newCell_def)
  have found: "findPath tenByTen \<lparr>vx = - (9 / 2), vy = sy, vz = - (9 / 2)\<rparr>
        \<lparr>vx = 9 / 2, vy = ey, vz = 9 / 2\<rparr> defaultSafetyMargin defaultAltitudePenalty
       = Some (Some (map (cellCentre tenByTen (max ey 1)) [(0, 0), (1, 1), (2, 2), (3, 3), (4, 4), (5, 5), (6, 6), (7, 7), (8, 8), (9, 9)]))"
    by (simp only: start srch centres)
  have cells: "map (\<lambda>p. worldToGridCoordinates tenByTen (vx p) (vz p))
         (map (cellCentre tenByTen (max ey 1)) [(0, 0), (1, 1), (2, 2), (3, 3), (4, 4), (5, 5), (6, 6), (7, 7), (8, 8), (9, 9)])
       = [Some (0, 0), Some (1, 1), Some (2, 2), Some (3, 3), Some (4, 4), Some (5, 5), Some (6, 6), Some (7, 7), Some (8, 8), Some (9, 9)]"
    by (simp add: cellCentre_def tenByTen_def worldToGridCoordinates_def
        newNavigationGrid_def newCell_def)
  have ends: "gridToWorldCoordinates tenByTen 0 0 = Some (- (9 / 2), - (9 / 2))"
    "gridToWorldCoordinates tenByTen 9 9 = Some (9 / 2, 9 / 2)"
    by (simp_all add: gridToWorldCoordinates_def tenByTen_def newNavigationGrid_def newCell_def)
  from ends found cells show ?thesis by simp
qed

section \<open>WaypointNavigator properties\<close>

lemma legsOf_Nil: "legsOf F cur [] legs \<longleftrightarrow> legs = []"
  by (cases legs) simp_all

lemma legsOf_Cons:
  "legsOf F cur (w # ws) legs \<longleftrightarrow>
     (\<exists>l ls. legs = l # ls \<and> F cur w = Some (Some l)
         \<and> legsOf F (if l = [] then w else last l) ws ls)"
  by (cases legs) simp_all

lemma legsLoop_char:
  "(\<exists>cur'. legsLoop nav m p (fp, cur) wps = Some (Some (fp', cur'))) \<longleftrightarrow>
     (\<exists>legs. legsOf (\<lambda>a b. pathfinder nav (navGrid nav) a b m p) cur wps legs
        \<and> fp' = fp @ concat (map tl legs))"
proof (induction wps arbitrary: fp cur)
  case Nil
  show ?case by (auto simp: legsOf_Nil)
next
  case (Cons w ws)
  show ?case
  proof (cases "pathfinder nav (navGrid nav) cur w m p")
    case None
    then show ?thesis by (simp add: legsOf_Cons)
  next
    case (Some r)
    show ?thesis
    proof (cases r)
      case None
      with Some show ?thesis by (simp add: legsOf_Cons)
    next
      case (Some l)
      with \<open>pathfinder nav (navGrid nav) cur w m p = Some r\<close>
      have F: "pathfinder nav (navGrid nav) cur w m p = Some (Some l)" by simp
      have "(\<exists>cur'. legsLoop nav m p (fp, cur) (w # ws) = Some (Some (fp', cur')))
          \<longleftrightarrow> (\<exists>cur'. legsLoop nav m p (fp @ tl l, if l = [] then w else last l) ws
                        = Some (Some (fp', cur')))"
        using F by simp
      also have "\<dots> \<longleftrightarrow> (\<exists>ls. legsOf (\<lambda>a b. pathfinder nav (navGrid nav) a b m p)
                               (if l = [] then w else last l) ws ls
                            \<and> fp' = (fp @ tl l) @ concat (map tl ls))"
        by (rule Cons.IH)
      also have "\<dots> \<longleftrightarrow> (\<exists>legs. legsOf (\<lambda>a b. pathfinder nav (navGrid nav) a b m p) cur (w # ws) legs
                            \<and> fp' = fp @ concat (map tl legs))"
        using F by (auto simp: legsOf_Cons)
      finally show ?thesis .
    qed
  qed
qed

text \<open>
  C2 (amended). \<open>generatePathThroughWaypoints\<close> returns a path exactly when every leg's
  search returns one, and the path is then the start position itself followed by, for
  every leg in order (the first one too), all of that leg's points except its first.
  The start position of each leg after the first is the last point of the leg before.
\<close>

theorem generatePath_concatenation:
  "generatePathThroughWaypoints nav startPos wps m p = Some (Some path) \<longleftrightarrow>
     (\<exists>legs. legsOf (\<lambda>a b. pathfinder nav (navGrid nav) a b m p) startPos wps legs
        \<and> path = startPos # concat (map tl legs))"
proof (cases "wps = []")
  case True
  then show ?thesis
    by (auto simp: generatePathThroughWaypoints_def legsOf_Nil)
next
  case False
  have "generatePathThroughWaypoints nav startPos wps m p = Some (Some path) \<longleftrightarrow>
     (\<exists>cur'. legsLoop nav m p ([startPos], startPos) wps = Some (Some (path, cur')))"
    using False by (auto simp: generatePathThroughWaypoints_def split: option.splits)
  then show ?thesis
    by (simp add: legsLoop_char)
qed

theorem generatePath_concatenation_witness:
  "\<exists>legs. legsOf (\<lambda>a b. findPath twoCells a b defaultSafetyMargin defaultAltitudePenalty) \<lparr>vx = - (1 / 2), vy = 5, vz = 0\<rparr>
            [\<lparr>vx = 1 / 2, vy = 7, vz = 0\<rparr>] legs
        \<and> [\<lparr>vx = - (1 / 2), vy = 5, vz = 0\<rparr>, \<lparr>vx = 1 / 2, vy = 7, vz = 0\<rparr>]
            = \<lparr>vx = - (1 / 2), vy = 5, vz = 0\<rparr> # concat (map tl legs)"
  using generatePath_concatenation [of "\<lparr>pathfinder = findPath, navGrid = twoCells\<rparr>"
      "\<lparr>vx = - (1 / 2), vy = 5, vz = 0\<rparr>" "[\<lparr>vx = 1 / 2, vy = 7, vz = 0\<rparr>]" defaultSafetyMargin defaultAltitudePenalty
      "[\<lparr>vx = - (1 / 2), vy = 5, vz = 0\<rparr>, \<lparr>vx = 1 / 2, vy = 7, vz = 0\<rparr>]"]
  by (simp add: generatePathThroughWaypoints_def twoCells_leg)

text \<open>
  The claim as first stated keeps the first leg in full. On the grid of two cells the
  first leg starts at the centre of the start cell at the planned altitude 7, while the
  returned path starts at the start position itself, at altitude 5.
\<close>

theorem generatePath_first_leg_counterexample:
  "legsOf (\<lambda>a b. findPath twoCells a b defaultSafetyMargin defaultAltitudePenalty) \<lparr>vx = - (1 / 2), vy = 5, vz = 0\<rparr>
      [\<lparr>vx = 1 / 2, vy = 7, vz = 0\<rparr>]
      [[\<lparr>vx = - (1 / 2), vy = 7, vz = 0\<rparr>, \<lparr>vx = 1 / 2, vy = 7, vz = 0\<rparr>]]
   \<and> generatePathThroughWaypoints \<lparr>pathfinder = findPath, navGrid = twoCells\<rparr>
        \<lparr>vx = - (1 / 2), vy = 5, vz = 0\<rparr> [\<lparr>vx = 1 / 2, vy = 7, vz = 0\<rparr>] defaultSafetyMargin defaultAltitudePenalty
       = Some (Some [\<lparr>vx = - (1 / 2), vy = 5, vz = 0\<rparr>, \<lparr>vx = 1 / 2, vy = 7, vz = 0\<rparr>])
   \<and> [\<lparr>vx = - (1 / 2), vy = 5, vz = 0\<rparr>, \<lparr>vx = 1 / 2, vy = 7, vz = 0\<rparr>]
       \<noteq> [\<lparr>vx = - (1 / 2), vy = 7, vz = 0\<rparr>, \<lparr>vx = 1 / 2, vy = 7, vz = (0::real)\<rparr>] @ concat (map tl [])"
  by (simp add: generatePathThroughWaypoints_def twoCells_leg)

lemma legsLoop_append:
  "legsLoop nav m p st (pre @ post) =
     (case legsLoop nav m p st pre of
        None \<Rightarrow> None | Some None \<Rightarrow> Some None
      | Some (Some st') \<Rightarrow> legsLoop nav m p st' post)"
proof (induction pre arbitrary: st)
  case Nil
  show ?case by (cases st) simp
next
  case (Cons w ws)
  show ?case
    by (cases st) (simp add: Cons.IH split: option.splits)
qed

text \<open>
  C6. If the legs to the waypoints \<open>pre\<close> all succeed and the search of the next leg,
  from the running position reached there to the waypoint \<open>w\<close>, returns \<open>null\<close>, then
  the whole call returns \<open>null\<close>, whatever waypoints follow.
\<close>

theorem generatePath_fails_on_failed_leg:
  assumes "legsLoop nav m p ([startPos], startPos) pre = Some (Some (fullPath, currentPosition))"
      and "pathfinder nav (navGrid nav) currentPosition w m p = Some None"
  shows "generatePathThroughWaypoints nav startPos (pre @ w # post) m p = Some None"
  using assms
  by (simp add: generatePathThroughWaypoints_def legsLoop_append)

theorem generatePath_fails_on_failed_leg_witness:
  "legsLoop \<lparr>pathfinder = findPath, navGrid = twoCells\<rparr> defaultSafetyMargin defaultAltitudePenalty
      ([\<lparr>vx = - (1 / 2), vy = 5, vz = 0\<rparr>], \<lparr>vx = - (1 / 2), vy = 5, vz = 0\<rparr>) [\<lparr>vx = 1 / 2, vy = 7, vz = 0\<rparr>]
     = Some (Some ([\<lparr>vx = - (1 / 2), vy = 5, vz = 0\<rparr>, \<lparr>vx = 1 / 2, vy = 7, vz = 0\<rparr>],
                   \<lparr>vx = 1 / 2, vy = 7, vz = 0\<rparr>))
   \<and> findPath twoCells \<lparr>vx = 1 / 2, vy = 7, vz = 0\<rparr> \<lparr>vx = 50, vy = 7, vz = 0\<rparr> defaultSafetyMargin defaultAltitudePenalty = Some None
   \<and> generatePathThroughWaypoints \<lparr>pathfinder = findPath, navGrid = twoCells\<rparr>
        \<lparr>vx = - (1 / 2), vy = 5, vz = 0\<rparr>
        ([\<lparr>vx = 1 / 2, vy = 7, vz = 0\<rparr>] @ \<lparr>vx = 50, vy = 7, vz = 0\<rparr> # [\<lparr>vx = - (1 / 2), vy = 7, vz = 0\<rparr>]) defaultSafetyMargin defaultAltitudePenalty
       = Some None"
proof -
  have pre: "legsLoop \<lparr>pathfinder = findPath, navGrid = twoCells\<rparr> defaultSafetyMargin defaultAltitudePenalty
      ([\<lparr>vx = - (1 / 2), vy = 5, vz = 0\<rparr>], \<lparr>vx = - (1 / 2), vy = 5, vz = 0\<rparr>) [\<lparr>vx = 1 / 2, vy = 7, vz = 0\<rparr>]
     = Some (Some ([\<lparr>vx = - (1 / 2), vy = 5, vz = 0\<rparr>, \<lparr>vx = 1 / 2, vy = 7, vz = 0\<rparr>],
                   \<lparr>vx = 1 / 2, vy = 7, vz = 0\<rparr>))"
    by (simp add: twoCells_leg)
  have leg: "pathfinder \<lparr>pathfinder = findPath, navGrid = twoCells\<rparr>
       (navGrid \<lparr>pathfinder = findPath, navGrid = twoCells\<rparr>)
       \<lparr>vx = 1 / 2, vy = 7, vz = 0\<rparr> \<lparr>vx = 50, vy = 7, vz = 0\<rparr> defaultSafetyMargin defaultAltitudePenalty = Some None"
    by (simp add: twoCells_outside)
  from generatePath_fails_on_failed_leg [OF pre leg, of "[\<lparr>vx = - (1 / 2), vy = 7, vz = 0\<rparr>]"] pre twoCells_outside
  show ?thesis by simp
qed

section \<open>DronePhysics properties\<close>

lemma crashed_tick:
  assumes "crashed ph"
  shows "rotation (update env delta keys True target ph) = rotation ph
       \<and> vx (velocity (update env delta keys True target ph)) = vx (velocity ph)
       \<and> vz (velocity (update env delta keys True target ph)) = vz (velocity ph)
       \<and> tilt (update env delta keys True target ph) = \<lparr> tiltX = 0, tiltZ = 0 \<rparr>
       \<and> vy (velocity (update env delta keys True target ph)) =
            (if vy (position ph) + (vy (velocity ph) - GRAVITY * delta) * delta < 1 then 0
             else vy (velocity ph) - GRAVITY * delta)
       \<and> crashed (update env delta keys True target ph)"
  using assms
  by (simp add: update_def updatePosition_def handleGroundCollision_def Let_def)

lemma crashed_run:
  assumes "crashed ph"
  shows "crashed (runTicks ts ph)
       \<and> rotation (runTicks ts ph) = rotation ph
       \<and> vx (velocity (runTicks ts ph)) = vx (velocity ph)
       \<and> vz (velocity (runTicks ts ph)) = vz (velocity ph)"
  using assms
proof (induction ts arbitrary: ph)
  case Nil
  then show ?case by (simp add: runTicks_def)
next
  case (Cons t ts)
  from crashed_tick [OF Cons.prems, of "tickEnv t" "tickDelta t" "tickKeys t" "tickTarget t"]
  have step: "crashed (update (tickEnv t) (tickDelta t) (tickKeys t) True (tickTarget t) ph)"
    "rotation (update (tickEnv t) (tickDelta t) (tickKeys t) True (tickTarget t) ph) = rotation ph"
    "vx (velocity (update (tickEnv t) (tickDelta t) (tickKeys t) True (tickTarget t) ph)) = vx (velocity ph)"
    "vz (velocity (update (tickEnv t) (tickDelta t) (tickKeys t) True (tickTarget t) ph)) = vz (velocity ph)"
    by simp_all
  from Cons.IH [OF step(1)] step show ?case
    by (simp add: runTicks_def)
qed

text \<open>
  What \<open>DronePhysics.update\<close> does with a flying drone whose \<open>crashed\<close> flag is set:
  heading and horizontal velocity stay as they were, the tilt becomes zero, and the
  vertical velocity changes only by gravity times the tick length (zero after the ground
  clamp); the flag stays set, so the same holds after any run of such updates, whatever
  keys and targets they carry. Only \<open>reset\<close> clears the flag.
\<close>

theorem crashed_only_gravity:
  assumes "crashed ph"
  shows "rotation (update env delta keys True target ph) = rotation ph
       \<and> vx (velocity (update env delta keys True target ph)) = vx (velocity ph)
       \<and> vz (velocity (update env delta keys True target ph)) = vz (velocity ph)
       \<and> tilt (update env delta keys True target ph) = \<lparr> tiltX = 0, tiltZ = 0 \<rparr>
       \<and> vy (velocity (update env delta keys True target ph)) =
            (if vy (position ph) + (vy (velocity ph) - GRAVITY * delta) * delta < 1 then 0
             else vy (velocity ph) - GRAVITY * delta)
       \<and> crashed (update env delta keys True target ph)
       \<and> crashed (runTicks ts ph)
       \<and> rotation (runTicks ts ph) = rotation ph
       \<and> vx (velocity (runTicks ts ph)) = vx (velocity ph)
       \<and> vz (velocity (runTicks ts ph)) = vz (velocity ph)
       \<and> \<not> crashed (reset ph)"
  using crashed_tick [OF assms, of env delta keys target] crashed_run [OF assms, of ts]
  by (simp add: reset_def)

theorem crashed_only_gravity_witness:
  "crashed crashedDrone
   \<and> rotation (update \<lparr> dateNow = 0, mathRandom = 1 / 2 \<rparr> (1 / 10)
          (noKeys\<lparr> key_w := True, key_q := True, key_ArrowUp := True \<rparr>) True None crashedDrone) = 90
   \<and> tilt (update \<lparr> dateNow = 0, mathRandom = 1 / 2 \<rparr> (1 / 10)
          (noKeys\<lparr> key_w := True, key_q := True, key_ArrowUp := True \<rparr>) True None crashedDrone)
        = \<lparr> tiltX = 0, tiltZ = 0 \<rparr>
   \<and> vy (velocity (update \<lparr> dateNow = 0, mathRandom = 1 / 2 \<rparr> (1 / 10)
          (noKeys\<lparr> key_w := True, key_q := True, key_ArrowUp := True \<rparr>) True None crashedDrone))
        = 2 - GRAVITY * (1 / 10)
   \<and> crashed (runTicks someTicks crashedDrone)
   \<and> rotation (runTicks someTicks crashedDrone) = 90
   \<and> vx (velocity (runTicks someTicks crashedDrone)) = 0
   \<and> vz (velocity (runTicks someTicks crashedDrone)) = 0"
proof -
  have c: "crashed crashedDrone"
    by (simp add: crashedDrone_def)
  from crashed_only_gravity [OF c, of "\<lparr> dateNow = 0, mathRandom = 1 / 2 \<rparr>" "1 / 10"
      "noKeys\<lparr> key_w := True, key_q := True, key_ArrowUp := True \<rparr>" None someTicks] c
  show ?thesis
    by (simp add: crashedDrone_def GRAVITY_def)
qed

lemma sqrt_25: "sqrt 25 = 5"
proof -
  have "sqrt (5\<^sup>2) = \<bar>5 :: real\<bar>" by (rule real_sqrt_abs)
  then show ?thesis by simp
qed

text \<open>
  C4. The claim holds for \<open>DronePhysics.update\<close>, as shown above, but not on every tick:
  in formation mode a drone that is not the active one is moved by
  \<open>followFormationPosition\<close>, which does not test the \<open>crashed\<close> flag. A flying,
  crashed follower with heading 90, velocity (0, 2, 0) and tilt (12, -30), given the slot
  (7, 5, 8) with heading 45 on a tick of 0.1, leaves the tick with heading 85.5, velocity
  (3, 0, 4) towards the slot, tilt (10.8, -27) and no gravity applied, still crashed.
\<close>

theorem crashed_follower_steered:
  "crashed (physics crashedFollower) \<and> isFlying crashedFollower
   \<and> rotation (physics crashedFollower) = 90
   \<and> velocity (physics crashedFollower) = \<lparr> vx = 0, vy = 2, vz = 0 \<rparr>
   \<and> tilt (physics crashedFollower) = \<lparr> tiltX = 12, tiltZ = - 30 \<rparr>
   \<and> physics (followFormationPosition \<lparr> vx = 7, vy = 5, vz = 8 \<rparr> 45 (1 / 10) crashedFollower)
       = \<lparr> altitude = 5, velocity = \<lparr> vx = 3, vy = 0, vz = 4 \<rparr>, rotation = 171 / 2,
           tilt = \<lparr> tiltX = 54 / 5, tiltZ = - 27 \<rparr>, position = \<lparr> vx = 7, vy = 5, vz = 8 \<rparr>,
           inFormation = True, crashed = True \<rparr>"
  by (simp add: crashedFollower_def crashedDrone_def newDrone_def followFormationPosition_def
      moveToFormationPosition_def FORMATION_FOLLOW_SPEED_def jsRemainder_def Let_def sqrt_25)

lemma tiltBounded_Let: "(\<And>x. tiltBounded (f x)) \<Longrightarrow> tiltBounded (Let e f)"
  by simp

lemma tiltBounded_clamped:
  "tiltBounded (ph\<lparr> tilt := \<lparr> tiltX = clamp a (- MAX_TILT) MAX_TILT,
                              tiltZ = clamp b (- MAX_TILT) MAX_TILT \<rparr> \<rparr>)"
  by (auto simp: tiltBounded_def clamp_def MAX_TILT_def)

lemma tilt_steer: "tiltBounded (steerTowardsPoint target delta ph)"
  unfolding steerTowardsPoint_def
  by (intro tiltBounded_Let tiltBounded_clamped)

lemma tilt_reset: "tiltBounded (reset ph)"
  by (simp add: reset_def tiltBounded_def MAX_TILT_def)

lemma tilt_handleMovement:
  assumes "tiltBounded ph"
  shows "tiltBounded (handleMovement delta keys ph)"
  using assms
  by (auto simp: handleMovement_def tiltBounded_def Let_def reset_def MAX_TILT_def)

lemma tilt_handleRotation: "tilt (handleRotation keys ph) = tilt ph"
  by (simp add: handleRotation_def Let_def)

lemma tilt_physics_tail:
  "tiltBounded ((handleGroundCollision (updatePosition delta (applyDrag ph)))\<lparr> altitude := a \<rparr>)
     = tiltBounded ph"
  by (simp add: handleGroundCollision_def updatePosition_def applyDrag_def tiltBounded_def)

lemma tilt_update:
  assumes "tiltBounded ph"
  shows "tiltBounded (update env delta keys flying target ph)"
proof (cases "\<not> flying")
  case True
  with assms show ?thesis by (simp add: update_def)
next
  case False
  note fly = this
  show ?thesis
  proof (cases "crashed ph")
    case True
    with fly show ?thesis
      by (simp add: update_def tiltBounded_def Let_def MAX_TILT_def)
  next
    case False
    show ?thesis
    proof (cases target)
      case None
      have "tiltBounded (handleMovement delta keys (handleRotation keys
              (ph\<lparr> velocity := (velocity ph)
                  \<lparr> vy := vy (velocity ph) + (calculateLift env keys ph - GRAVITY) * delta \<rparr> \<rparr>)))"
        using assms by (intro tilt_handleMovement) (simp add: tiltBounded_def tilt_handleRotation)
      with fly False None show ?thesis
        by (simp add: update_def Let_def tilt_physics_tail)
    next
      case (Some t)
      with fly False show ?thesis
        by (simp add: update_def Let_def tilt_physics_tail tilt_steer)
    qed
  qed
qed

lemma tilt_formation:
  assumes "tiltBounded ph"
  shows "tiltBounded (moveToFormationPosition tp tr delta ph)"
proof -
  have "\<bar>x * 0.9\<bar> \<le> MAX_TILT" if "\<bar>x\<bar> \<le> MAX_TILT" for x :: real
    using that by (simp add: abs_mult MAX_TILT_def)
  with assms show ?thesis
    by (simp add: moveToFormationPosition_def tiltBounded_def Let_def)
qed

text \<open>
  C10. If both tilt angles are within \<open>MAX_TILT\<close> (30 degrees), they are so after a
  physics update, whatever its mode (not flying, crashed, steering to a target, manual
  keys), and after a step of formation following.
\<close>

theorem tilt_stays_bounded:
  assumes "tiltBounded ph"
  shows "tiltBounded (update env delta keys flying target ph)
       \<and> tiltBounded (moveToFormationPosition targetPosition targetRotation delta ph)"
  using tilt_update [OF assms] tilt_formation [OF assms]
  by simp

theorem tilt_stays_bounded_witness:
  "tiltBounded crashedDrone
   \<and> tiltBounded (update \<lparr> dateNow = 0, mathRandom = 1 / 2 \<rparr> (1 / 10)
          (noKeys\<lparr> key_s := True, key_a := True \<rparr>) True None (crashedDrone\<lparr> crashed := False \<rparr>))
   \<and> tiltBounded (moveToFormationPosition \<lparr> vx = 0, vy = 10, vz = 0 \<rparr> 45 (1 / 10)
          (crashedDrone\<lparr> crashed := False \<rparr>))"
proof -
  have b: "tiltBounded crashedDrone" "tiltBounded (crashedDrone\<lparr> crashed := False \<rparr>)"
    by (simp_all add: tiltBounded_def crashedDrone_def MAX_TILT_def)
  from tilt_stays_bounded [OF b(2), of "\<lparr> dateNow = 0, mathRandom = 1 / 2 \<rparr>" "1 / 10"
      "noKeys\<lparr> key_s := True, key_a := True \<rparr>" True None "\<lparr> vx = 0, vy = 10, vz = 0 \<rparr>" 45] b
  show ?thesis by simp
qed

section \<open>Drone and DroneManager properties\<close>

lemma toggle_empty:
  assumes "waypoints d = []"
  shows "toggleAutonomousMode d =
      (if isAutonomous d
       then Some (d\<lparr> isAutonomous := False, currentPath := None, currentTargetPathNodeIndex := - 1 \<rparr>)
       else Some (d\<lparr> isAutonomous := True, physics := exitFormation (physics d) \<rparr>))"
  using assms by (simp add: toggleAutonomousMode_def Let_def)

lemma auto_empty:
  assumes "waypoints d = []"
  shows "updateAutonomousMovement env delta d =
      Some (d\<lparr> physics := update env delta noKeys (isFlying d) None (physics d) \<rparr>)"
  using assms by (simp add: updateAutonomousMovement_def Let_def)

text \<open>
  C3 (amended). With an empty waypoint queue the toggle still flips the autonomous
  flag: a drone that was not autonomous is autonomous afterwards (and out of formation),
  with no path computed; a drone that was autonomous leaves the mode and drops its path.
  An autonomous tick with an empty queue applies the physics without keys and without a
  target, and leaves the drone autonomous.
\<close>

theorem toggle_with_empty_queue:
  assumes "waypoints d = []"
  shows "toggleAutonomousMode d =
      (if isAutonomous d
       then Some (d\<lparr> isAutonomous := False, currentPath := None, currentTargetPathNodeIndex := - 1 \<rparr>)
       else Some (d\<lparr> isAutonomous := True, physics := exitFormation (physics d) \<rparr>))
     \<and> updateAutonomousMovement env delta d =
      Some (d\<lparr> physics := update env delta noKeys (isFlying d) None (physics d) \<rparr>)"
  using toggle_empty [OF assms] auto_empty [OF assms]
  by simp

theorem toggle_with_empty_queue_witness:
  "waypoints (newDrone \<lparr> vx = 0, vy = 10, vz = 0 \<rparr> None) = []
   \<and> toggleAutonomousMode (newDrone \<lparr> vx = 0, vy = 10, vz = 0 \<rparr> None)
       = Some ((newDrone \<lparr> vx = 0, vy = 10, vz = 0 \<rparr> None)\<lparr> isAutonomous := True \<rparr>)"
proof -
  have w: "waypoints (newDrone \<lparr> vx = 0, vy = 10, vz = 0 \<rparr> None) = []"
    by (simp add: newDrone_def)
  from toggle_with_empty_queue [OF w] w show ?thesis
    by (simp add: newDrone_def newDronePhysics_def exitFormation_def)
qed

text \<open>
  The claim as first stated fails on a drone fresh from the constructor: its queue is
  empty, it is not autonomous, and after the toggle it is.
\<close>

theorem toggle_empty_queue_counterexample:
  "waypoints (newDrone \<lparr> vx = 0, vy = 10, vz = 0 \<rparr> None) = []
   \<and> \<not> isAutonomous (newDrone \<lparr> vx = 0, vy = 10, vz = 0 \<rparr> None)
   \<and> (\<exists>d. toggleAutonomousMode (newDrone \<lparr> vx = 0, vy = 10, vz = 0 \<rparr> None) = Some d
            \<and> isAutonomous d)"
  by (simp add: toggleAutonomousMode_def newDrone_def Let_def)

lemma upt3: "[0..<3] = [0, 1, 2]"
  by (simp add: upt_rec)

lemma offset_distance:
  "distanceTo \<lparr> vx = a + s, vy = b, vz = c - s \<rparr> \<lparr> vx = a, vy = b, vz = c \<rparr> = \<bar>s\<bar> * sqrt 2"
  "distanceTo \<lparr> vx = a - s, vy = b, vz = c - s \<rparr> \<lparr> vx = a, vy = b, vz = c \<rparr> = \<bar>s\<bar> * sqrt 2"
proof -
  have "sqrt (s * s + s * s) = \<bar>s\<bar> * sqrt 2"
  proof -
    have "s * s + s * s = s\<^sup>2 * 2" by (simp add: power2_eq_square)
    then show ?thesis by (simp add: real_sqrt_mult)
  qed
  then show "distanceTo \<lparr> vx = a + s, vy = b, vz = c - s \<rparr> \<lparr> vx = a, vy = b, vz = c \<rparr> = \<bar>s\<bar> * sqrt 2"
    "distanceTo \<lparr> vx = a - s, vy = b, vz = c - s \<rparr> \<lparr> vx = a, vy = b, vz = c \<rparr> = \<bar>s\<bar> * sqrt 2"
    by (simp_all add: distanceTo_def vlength_def subVectors_def)
qed

lemma v_formation_three:
  assumes "length (drones m) = 3" "formationMode m" "formationPattern m = ''v''"
      and "0 \<le> activeDroneIndex m" "activeDroneIndex m < 3"
      and "rotation (physics (drones m ! nat (activeDroneIndex m))) = 0"
  shows "\<exists>i j. [i, j] = filter (\<lambda>k. int k \<noteq> activeDroneIndex m) [0, 1, 2]
       \<and> calculateFormationPositions m = Some
          [\<lparr> slotIndex = i,
             slotPosition =
               \<lparr> vx = vx (position (physics (drones m ! nat (activeDroneIndex m)))) + formationSpacing m,
                 vy = vy (position (physics (drones m ! nat (activeDroneIndex m)))),
                 vz = vz (position (physics (drones m ! nat (activeDroneIndex m)))) - formationSpacing m \<rparr>,
             slotRotation = 0 \<rparr>,
           \<lparr> slotIndex = j,
             slotPosition =
               \<lparr> vx = vx (position (physics (drones m ! nat (activeDroneIndex m)))) - formationSpacing m,
                 vy = vy (position (physics (drones m ! nat (activeDroneIndex m)))),
                 vz = vz (position (physics (drones m ! nat (activeDroneIndex m)))) - formationSpacing m \<rparr>,
             slotRotation = 0 \<rparr>]"
proof -
  from assms(4,5) consider "activeDroneIndex m = 0" | "activeDroneIndex m = 1" | "activeDroneIndex m = 2"
    by linarith
  then show ?thesis
  proof cases
    case 1
    with assms show ?thesis
      by (simp add: calculateFormationPositions_def upt3 vSlot_def rotatedSlot_def Let_def)
  next
    case 2
    with assms show ?thesis
      by (simp add: calculateFormationPositions_def upt3 vSlot_def rotatedSlot_def Let_def)
  next
    case 3
    with assms show ?thesis
      by (simp add: calculateFormationPositions_def upt3 vSlot_def rotatedSlot_def Let_def)
  qed
qed

text \<open>
  C5 (amended). In a fleet of three in V formation whose leader has heading 0, the two
  follower targets are the leader's position moved by \<open>(+spacing, -spacing)\<close> and by
  \<open>(-spacing, -spacing)\<close> in x and z: mirror images across the leader's forward axis,
  one row behind. Each component of a follower's offset has magnitude \<open>spacing\<close>; the
  distance of the target from the leader is \<open>spacing * sqrt 2\<close>.
\<close>

theorem v_formation_symmetric:
  assumes "length (drones m) = 3" "formationMode m" "formationPattern m = ''v''"
      and "0 \<le> activeDroneIndex m" "activeDroneIndex m < 3"
      and "rotation (physics (drones m ! nat (activeDroneIndex m))) = 0"
  shows "\<exists>i j p q.
           [i, j] = filter (\<lambda>k. int k \<noteq> activeDroneIndex m) [0, 1, 2]
         \<and> calculateFormationPositions m = Some
              [\<lparr> slotIndex = i, slotPosition = p, slotRotation = 0 \<rparr>,
               \<lparr> slotIndex = j, slotPosition = q, slotRotation = 0 \<rparr>]
         \<and> vx p - vx (position (physics (drones m ! nat (activeDroneIndex m)))) = formationSpacing m
         \<and> vx q - vx (position (physics (drones m ! nat (activeDroneIndex m)))) = - formationSpacing m
         \<and> vz p - vz (position (physics (drones m ! nat (activeDroneIndex m)))) = - formationSpacing m
         \<and> vz q - vz (position (physics (drones m ! nat (activeDroneIndex m)))) = - formationSpacing m
         \<and> vy p = vy (position (physics (drones m ! nat (activeDroneIndex m))))
         \<and> vy q = vy (position (physics (drones m ! nat (activeDroneIndex m))))
         \<and> distanceTo p (position (physics (drones m ! nat (activeDroneIndex m))))
             = \<bar>formationSpacing m\<bar> * sqrt 2
         \<and> distanceTo q (position (physics (drones m ! nat (activeDroneIndex m))))
             = \<bar>formationSpacing m\<bar> * sqrt 2"
proof -
  let ?L = "position (physics (drones m ! nat (activeDroneIndex m)))"
  have L: "?L = \<lparr> vx = vx ?L, vy = vy ?L, vz = vz ?L \<rparr>" by simp
  from v_formation_three [OF assms] obtain i j where
    ij: "[i, j] = filter (\<lambda>k. int k \<noteq> activeDroneIndex m) [0, 1, 2]"
    and r: "calculateFormationPositions m = Some
          [\<lparr> slotIndex = i,
             slotPosition = \<lparr> vx = vx ?L + formationSpacing m, vy = vy ?L,
                              vz = vz ?L - formationSpacing m \<rparr>,
             slotRotation = 0 \<rparr>,
           \<lparr> slotIndex = j,
             slotPosition = \<lparr> vx = vx ?L - formationSpacing m, vy = vy ?L,
                              vz = vz ?L - formationSpacing m \<rparr>,
             slotRotation = 0 \<rparr>]"
    by blast
  have d1: "distanceTo \<lparr> vx = vx ?L + formationSpacing m, vy = vy ?L, vz = vz ?L - formationSpacing m \<rparr> ?L
      = \<bar>formationSpacing m\<bar> * sqrt 2"
    using offset_distance(1) [of "vx ?L" "formationSpacing m" "vy ?L" "vz ?L"] L by simp
  have d2: "distanceTo \<lparr> vx = vx ?L - formationSpacing m, vy = vy ?L, vz = vz ?L - formationSpacing m \<rparr> ?L
      = \<bar>formationSpacing m\<bar> * sqrt 2"
    using offset_distance(2) [of "vx ?L" "formationSpacing m" "vy ?L" "vz ?L"] L by simp
  show ?thesis
    apply (rule exI [of _ i], rule exI [of _ j])
    apply (rule exI [of _ "\<lparr> vx = vx ?L + formationSpacing m, vy = vy ?L, vz = vz ?L - formationSpacing m \<rparr>"])
    apply (rule exI [of _ "\<lparr> vx = vx ?L - formationSpacing m, vy = vy ?L, vz = vz ?L - formationSpacing m \<rparr>"])
    using ij r d1 d2 apply simp
    done
qed

theorem v_formation_symmetric_witness:
  "length (drones fleetOfThree) = 3 \<and> formationMode fleetOfThree
   \<and> formationPattern fleetOfThree = ''v'' \<and> activeDroneIndex fleetOfThree = 0
   \<and> rotation (physics (drones fleetOfThree ! 0)) = 0
   \<and> (\<exists>p q. calculateFormationPositions fleetOfThree = Some
              [\<lparr> slotIndex = 1, slotPosition = p, slotRotation = 0 \<rparr>,
               \<lparr> slotIndex = 2, slotPosition = q, slotRotation = 0 \<rparr>]
         \<and> vx p = 5 \<and> vx q = - 5 \<and> vz p = - 5 \<and> vz q = - 5
         \<and> distanceTo p \<lparr> vx = 0, vy = 10, vz = 0 \<rparr> = 5 * sqrt 2)"
proof -
  have h: "length (drones fleetOfThree) = 3" "formationMode fleetOfThree"
    "formationPattern fleetOfThree = ''v''" "0 \<le> activeDroneIndex fleetOfThree"
    "activeDroneIndex fleetOfThree < 3"
    "rotation (physics (drones fleetOfThree ! nat (activeDroneIndex fleetOfThree))) = 0"
    by (simp_all add: fleetOfThree_def newDrone_def newDronePhysics_def)
  have a: "activeDroneIndex fleetOfThree = 0" "formationSpacing fleetOfThree = 5"
    "position (physics (drones fleetOfThree ! 0)) = \<lparr> vx = 0, vy = 10, vz = 0 \<rparr>"
    "rotation (physics (drones fleetOfThree ! 0)) = 0"
    by (simp_all add: fleetOfThree_def newDrone_def newDronePhysics_def)
  from v_formation_symmetric [OF h] obtain i j p q where
    ij: "[i, j] = filter (\<lambda>k. int k \<noteq> activeDroneIndex fleetOfThree) [0, 1, 2]"
    and r: "calculateFormationPositions fleetOfThree = Some
              [\<lparr> slotIndex = i, slotPosition = p, slotRotation = 0 \<rparr>,
               \<lparr> slotIndex = j, slotPosition = q, slotRotation = 0 \<rparr>]"
    and o: "vx p - vx (position (physics (drones fleetOfThree ! nat (activeDroneIndex fleetOfThree))))
              = formationSpacing fleetOfThree"
      "vx q - vx (position (physics (drones fleetOfThree ! nat (activeDroneIndex fleetOfThree))))
              = - formationSpacing fleetOfThree"
      "vz p - vz (position (physics (drones fleetOfThree ! nat (activeDroneIndex fleetOfThree))))
              = - formationSpacing fleetOfThree"
      "vz q - vz (position (physics (drones fleetOfThree ! nat (activeDroneIndex fleetOfThree))))
              = - formationSpacing fleetOfThree"
    and dist: "distanceTo p (position (physics (drones fleetOfThree ! nat (activeDroneIndex fleetOfThree))))
             = \<bar>formationSpacing fleetOfThree\<bar> * sqrt 2"
    by blast
  from ij a(1) have ij': "i = 1" "j = 2" by simp_all
  from o dist a have v: "vx p = 5" "vx q = - 5" "vz p = - 5" "vz q = - 5"
    "distanceTo p \<lparr> vx = 0, vy = 10, vz = 0 \<rparr> = 5 * sqrt 2"
    by simp_all
  from r ij' v have "\<exists>p q. calculateFormationPositions fleetOfThree = Some
              [\<lparr> slotIndex = 1, slotPosition = p, slotRotation = 0 \<rparr>,
               \<lparr> slotIndex = 2, slotPosition = q, slotRotation = 0 \<rparr>]
         \<and> vx p = 5 \<and> vx q = - 5 \<and> vz p = - 5 \<and> vz q = - 5
         \<and> distanceTo p \<lparr> vx = 0, vy = 10, vz = 0 \<rparr> = 5 * sqrt 2"
    by blast
  with h(1,2,3) a(1,4) show ?thesis by blast
qed

text \<open>
  The claim as first stated gives the offset the magnitude \<open>spacing\<close>. In the fleet of
  three with spacing 5 the first follower's target is at distance \<open>sqrt 50\<close> from the
  leader.
\<close>

lemma sqrt_50: "sqrt 50 \<noteq> 5"
proof
  assume "sqrt 50 = 5"
  then have "(sqrt 50)\<^sup>2 = 5\<^sup>2" by simp
  then show False by simp
qed

theorem v_formation_magnitude_counterexample:
  "calculateFormationPositions fleetOfThree = Some
     [\<lparr> slotIndex = 1, slotPosition = \<lparr> vx = 5, vy = 10, vz = - 5 \<rparr>, slotRotation = 0 \<rparr>,
      \<lparr> slotIndex = 2, slotPosition = \<lparr> vx = - 5, vy = 10, vz = - 5 \<rparr>, slotRotation = 0 \<rparr>]
   \<and> position (physics (drones fleetOfThree ! 0)) = \<lparr> vx = 0, vy = 10, vz = 0 \<rparr>
   \<and> distanceTo \<lparr> vx = 5, vy = 10, vz = - 5 \<rparr> \<lparr> vx = 0, vy = 10, vz = 0 \<rparr>
        \<noteq> formationSpacing fleetOfThree"
  using sqrt_50
  by (simp add: calculateFormationPositions_def fleetOfThree_def upt3 vSlot_def rotatedSlot_def Let_def
      newDrone_def newDronePhysics_def distanceTo_def vlength_def subVectors_def)

end
